theory Spec2Isabelle
  imports Main "HOL-Library.Word"
begin

section \<open>Timestamps and the date arithmetic of the SQL statements\<close>

text \<open>
  The SQL statements of \<^verbatim>\<open>index.js\<close> use \<^verbatim>\<open>NOW()\<close> and
  \<^verbatim>\<open>DATE_ADD(NOW(), INTERVAL n MONTH|YEAR)\<close>. A timestamp is a calendar date with a
  time of day (seconds since midnight). Adding months or years keeps the day of the month
  unless the target month is shorter, in which case the day becomes the last day of that
  month (the database's rule for \<^verbatim>\<open>MONTH\<close> and \<^verbatim>\<open>YEAR\<close> intervals).
\<close>

record timestamp =
  ts_year :: nat
  ts_month :: nat
  ts_day :: nat
  ts_time :: nat

datatype interval_unit = MONTH | YEAR

definition leap_year :: "nat \<Rightarrow> bool" where
  "leap_year y = ((y mod 4 = 0 \<and> y mod 100 \<noteq> 0) \<or> y mod 400 = 0)"

definition days_in_month :: "nat \<Rightarrow> nat \<Rightarrow> nat" where
  "days_in_month y m =
     (if m = 2 then (if leap_year y then 29 else 28)
      else if m = 4 \<or> m = 6 \<or> m = 9 \<or> m = 11 then 30
      else 31)"

definition add_months :: "timestamp \<Rightarrow> nat \<Rightarrow> timestamp" where
  "add_months t n =
     (let total = ts_year t * 12 + (ts_month t - 1) + n;
          y = total div 12;
          m = total mod 12 + 1
      in \<lparr> ts_year = y, ts_month = m, ts_day = min (ts_day t) (days_in_month y m),
           ts_time = ts_time t \<rparr>)"

fun date_add :: "timestamp \<Rightarrow> nat \<Rightarrow> interval_unit \<Rightarrow> timestamp" where
  "date_add t n MONTH = add_months t n"
| "date_add t n YEAR = add_months t (12 * n)"

text \<open>
  The renewal clause that \<^verbatim>\<open>handleInvoicePaid\<close> splices into its UPDATE statement is
  one of the strings \<^verbatim>\<open>DATE_ADD(NOW(), INTERVAL n unit)\<close>: it is kept as data and
  evaluated at the time the statement runs.
\<close>

datatype sql_clause = DATE_ADD_NOW nat interval_unit

fun eval_clause :: "sql_clause \<Rightarrow> timestamp \<Rightarrow> timestamp" where
  "eval_clause (DATE_ADD_NOW n u) now = date_add now n u"

section \<open>The table \<^verbatim>\<open>usuarios\<close>\<close>

text \<open>
  One row of the table created by \<^verbatim>\<open>initDb\<close>. Only \<^verbatim>\<open>email\<close> is declared
  \<^verbatim>\<open>NOT NULL\<close>; every other column may hold \<^verbatim>\<open>NULL\<close> (\<open>None\<close>). Columns hold
  strings of any length and are compared by equality.
\<close>

record usuario =
  id_u :: nat
  email :: string
  nome :: "string option"
  stripe_customer_id :: "string option"
  status :: "string option"
  plano :: "string option"
  api_key :: "string option"
  data_criacao :: "timestamp option"
  data_assinatura :: "timestamp option"
  data_renovacao :: "timestamp option"
  data_modificacao :: "timestamp option"

text \<open>Errors that a rejected promise or a failed property access throws.\<close>

datatype js_error =
    DbError
  | DupEntry
  | StripeError string
  | TypeError

text \<open>
  What the handlers write with \<^verbatim>\<open>console.log\<close> and \<^verbatim>\<open>console.error\<close>, one
  constructor per message of the source, with the interpolated values as arguments.
\<close>

datatype log_entry =
    LogEmailNaoEncontrado
  | LogCheckoutProcessado string
  | ErrCheckout js_error
  | LogInvoiceAtualizado "string option"
  | ErrInvoice js_error
  | LogAssinaturaCancelada "string option"
  | ErrCancelamento js_error
  | LogEventoNaoTratado string
  | ErrWebhook string
  | ErrCheckoutSession js_error

text \<open>A field of a parsed JSON request body, with the truth value \<^verbatim>\<open>if\<close> gives it.\<close>

datatype jsval = JUndefined | JNull | JBool bool | JNum int | JStr string | JObject

fun js_truthy :: "jsval \<Rightarrow> bool" where
  "js_truthy JUndefined = False"
| "js_truthy JNull = False"
| "js_truthy (JBool b) = b"
| "js_truthy (JNum n) = (n \<noteq> 0)"
| "js_truthy (JStr s) = (s \<noteq> [])"
| "js_truthy JObject = True"

subsection \<open>Objects of the payment provider\<close>

record customer_details =
  cd_email :: "string option"

text \<open>
  \<^verbatim>\<open>event.data.object\<close>: the fields that the three handlers read. A field that is
  absent or \<^verbatim>\<open>null\<close> is \<open>None\<close>.
\<close>

record stripe_object =
  customer_details :: "customer_details option"
  customer :: "string option"
  metadata :: "(string \<times> string) list option"
  subscription :: "string option"

record stripe_event =
  ev_type :: string
  data_object :: stripe_object

record stripe_plan =
  interval :: string
  interval_count :: int

record stripe_customer =
  cus_id :: string
  cus_email :: "string option"

text \<open>\<^verbatim>\<open>subscription.items.data\<close> is the list of the plans of the items.\<close>

record stripe_subscription =
  items_data :: "stripe_plan list"

text \<open>The parameters of \<^verbatim>\<open>stripe.checkout.sessions.create\<close>.\<close>

record checkout_data =
  success_url :: string
  cancel_url :: string
  mode :: string
  line_items :: "(string \<times> nat) list"
  cd_metadata :: "(string \<times> string) list"
  cd_customer :: "string option"

text \<open>What a request has created at the payment provider.\<close>

datatype stripe_call =
    ProductsCreate string string
  | PricesCreate string nat string string int
  | CustomersCreate jsval string
  | SessionsCreate checkout_data

text \<open>
  The payment provider's client and the process environment, as the functions the code
  calls. A call that rejects returns \<open>Inl\<close> with the error's message.
\<close>

record stripe_env =
  STRIPE_WEBHOOK_SECRET :: "string option"
  constructEvent :: "string \<Rightarrow> string option \<Rightarrow> string option \<Rightarrow> string + stripe_event"
  subscriptions_retrieve :: "string \<Rightarrow> string + stripe_subscription"
  customers_retrieve :: "string \<Rightarrow> string + stripe_customer"
  customers_list :: "jsval \<Rightarrow> string + stripe_customer list"
  customers_create :: "jsval \<Rightarrow> string \<Rightarrow> string + stripe_customer"
  products_create :: "string \<Rightarrow> string \<Rightarrow> string + string"
  prices_create :: "string \<Rightarrow> nat \<Rightarrow> string \<Rightarrow> string \<Rightarrow> int \<Rightarrow> string + string"
  sessions_create :: "checkout_data \<Rightarrow> string + string"

text \<open>
  The state the program acts on: the table with its \<^verbatim>\<open>AUTO_INCREMENT\<close> counter, whether
  the connection pool can reach the database, the console, the bytes that
  \<^verbatim>\<open>crypto.randomBytes\<close> will return next, and what has been created at the provider.
\<close>

record world =
  usuarios :: "usuario list"
  next_id :: nat
  db_online :: bool
  console :: "log_entry list"
  entropy :: "nat \<Rightarrow> 8 word"
  entropy_pos :: nat
  stripe_calls :: "stripe_call list"

section \<open>\<^verbatim>\<open>generateApiKey\<close>\<close>

definition b64url_alphabet :: string where
  "b64url_alphabet = ''ABCDEFGHIJKLMNOPQRSTUVWXYZabcdefghijklmnopqrstuvwxyz0123456789-_''"

definition b64url_char :: "nat \<Rightarrow> char" where
  "b64url_char n = b64url_alphabet ! (n mod 64)"

text \<open>\<^verbatim>\<open>Buffer.toString("base64url")\<close>: six bits per character, no padding.\<close>

fun base64url :: "8 word list \<Rightarrow> string" where
  "base64url (a # b # c # rest) =
     (let n = unat a * 65536 + unat b * 256 + unat c
      in [b64url_char (n div 262144), b64url_char (n div 4096),
          b64url_char (n div 64), b64url_char n] @ base64url rest)"
| "base64url [a, b] =
     (let n = (unat a * 256 + unat b) * 4
      in [b64url_char (n div 4096), b64url_char (n div 64), b64url_char n])"
| "base64url [a] =
     (let n = unat a * 16
      in [b64url_char (n div 64), b64url_char n])"
| "base64url [] = []"

definition randomBytes :: "nat \<Rightarrow> world \<Rightarrow> 8 word list \<times> world" where
  "randomBytes n w =
     (map (entropy w) [entropy_pos w ..< entropy_pos w + n],
      w\<lparr>entropy_pos := entropy_pos w + n\<rparr>)"

definition generateApiKey :: "world \<Rightarrow> string \<times> world" where
  "generateApiKey w = (let (bytes, w') = randomBytes 32 w in (base64url bytes, w'))"

section \<open>Values of JavaScript\<close>

text \<open>
  \<open>falsy v\<close> is \<^verbatim>\<open>!v\<close> for a value that is a string, \<^verbatim>\<open>null\<close> or
  \<^verbatim>\<open>undefined\<close>: the empty string is falsy as well.
\<close>

definition falsy :: "string option \<Rightarrow> bool" where
  "falsy v = (v = None \<or> v = Some [])"

definition console_write :: "log_entry \<Rightarrow> world \<Rightarrow> world" where
  "console_write l w = w\<lparr>console := console w @ [l]\<rparr>"

section \<open>The statements sent through \<^verbatim>\<open>pool.query\<close>\<close>

text \<open>\<^verbatim>\<open>SELECT email, api_key FROM usuarios WHERE email = ?\<close>\<close>

definition query_select_email_api_key ::
  "string \<Rightarrow> world \<Rightarrow> js_error + (string \<times> string option) list" where
  "query_select_email_api_key e w =
     (if \<not> db_online w then Inl DbError
      else Inr (map (\<lambda>r. (email r, api_key r)) (filter (\<lambda>r. email r = e) (usuarios w))))"

text \<open>
  \<^verbatim>\<open>INSERT INTO usuarios (email, stripe_customer_id, status, plano, api_key,
  data_assinatura, data_renovacao) VALUES (?, ?, 'ativo', ?, ?, NOW(),
  DATE_ADD(NOW(), INTERVAL 3 MONTH))\<close>.
  The columns left out take their defaults; \<^verbatim>\<open>email\<close> is \<^verbatim>\<open>UNIQUE\<close>.
\<close>

definition query_insert_usuario ::
  "timestamp \<Rightarrow> string \<Rightarrow> string option \<Rightarrow> string option \<Rightarrow> string \<Rightarrow> world
     \<Rightarrow> js_error + world" where
  "query_insert_usuario now e customerId planName apiKey w =
     (if \<not> db_online w then Inl DbError
      else if e \<in> set (map email (usuarios w)) then Inl DupEntry
      else Inr (w\<lparr>usuarios := usuarios w @
             [\<lparr> id_u = next_id w, email = e, nome = None,
                stripe_customer_id = customerId, status = Some ''ativo'',
                plano = planName, api_key = Some apiKey,
                data_criacao = Some now, data_assinatura = Some now,
                data_renovacao = Some (date_add now 3 MONTH),
                data_modificacao = None \<rparr>],
           next_id := next_id w + 1\<rparr>))"

text \<open>
  \<^verbatim>\<open>UPDATE usuarios SET stripe_customer_id = ?, status = 'ativo', plano = ?,
  api_key = ?, data_assinatura = NOW(), data_renovacao = DATE_ADD(NOW(), INTERVAL 3 MONTH)
  WHERE email = ?\<close>
\<close>

definition query_update_checkout ::
  "timestamp \<Rightarrow> string option \<Rightarrow> string option \<Rightarrow> string \<Rightarrow> string \<Rightarrow> world
     \<Rightarrow> js_error + world" where
  "query_update_checkout now customerId planName apiKey e w =
     (if \<not> db_online w then Inl DbError
      else Inr (w\<lparr>usuarios := map (\<lambda>r.
             if email r = e
             then r\<lparr>stripe_customer_id := customerId, status := Some ''ativo'',
                    plano := planName, api_key := Some apiKey,
                    data_assinatura := Some now,
                    data_renovacao := Some (date_add now 3 MONTH)\<rparr>
             else r) (usuarios w)\<rparr>))"

text \<open>
  \<^verbatim>\<open>UPDATE usuarios SET status = 'ativo', plano = ?, data_renovacao = ${intervalClause},
  data_modificacao = NOW() WHERE email = ?\<close>. A \<^verbatim>\<open>NULL\<close> parameter equals no email.
\<close>

definition query_update_invoice ::
  "timestamp \<Rightarrow> sql_clause \<Rightarrow> string \<Rightarrow> string option \<Rightarrow> world \<Rightarrow> js_error + world" where
  "query_update_invoice now intervalClause planName e w =
     (if \<not> db_online w then Inl DbError
      else Inr (w\<lparr>usuarios := map (\<lambda>r.
             if Some (email r) = e
             then r\<lparr>status := Some ''ativo'', plano := Some planName,
                    data_renovacao := Some (eval_clause intervalClause now),
                    data_modificacao := Some now\<rparr>
             else r) (usuarios w)\<rparr>))"

text \<open>
  \<^verbatim>\<open>UPDATE usuarios SET status = 'inativo', data_modificacao = NOW() WHERE email = ?\<close>
\<close>

definition query_update_canceled ::
  "timestamp \<Rightarrow> string option \<Rightarrow> world \<Rightarrow> js_error + world" where
  "query_update_canceled now e w =
     (if \<not> db_online w then Inl DbError
      else Inr (w\<lparr>usuarios := map (\<lambda>r.
             if Some (email r) = e
             then r\<lparr>status := Some ''inativo'', data_modificacao := Some now\<rparr>
             else r) (usuarios w)\<rparr>))"

section \<open>The webhook handlers\<close>

text \<open>
  Each handler takes the provider's client, the database's clock at the time its write
  runs, the event's object and the state, and returns the state it leaves. The
  \<^verbatim>\<open>try\<close>/\<^verbatim>\<open>catch\<close> around each body turns every error into a line on the console.
\<close>

text \<open>
  \<^verbatim>\<open>session.customer_details && session.customer_details.email\<close> and
  \<^verbatim>\<open>session.metadata ? session.metadata.plan : "desconhecido"\<close>, the first two values
  that \<^verbatim>\<open>handleCheckoutSessionCompleted\<close> reads off the session.
\<close>

definition session_email :: "stripe_object \<Rightarrow> string option" where
  "session_email session =
     (case customer_details session of None \<Rightarrow> None | Some cd \<Rightarrow> cd_email cd)"

definition session_planName :: "stripe_object \<Rightarrow> string option" where
  "session_planName session =
     (case metadata session of Some m \<Rightarrow> map_of m ''plan''
      | None \<Rightarrow> Some ''desconhecido'')"

definition handleCheckoutSessionCompleted ::
  "stripe_env \<Rightarrow> timestamp \<Rightarrow> stripe_object \<Rightarrow> world \<Rightarrow> world" where
  "handleCheckoutSessionCompleted env now session w =
     (let email_v = session_email session;
          customerId = customer session;
          planName = session_planName session
      in case email_v of
           None \<Rightarrow> console_write LogEmailNaoEncontrado w
         | Some e \<Rightarrow>
             if e = [] then console_write LogEmailNaoEncontrado w
             else
               (case query_select_email_api_key e w of
                  Inl err \<Rightarrow> console_write (ErrCheckout err) w
                | Inr [] \<Rightarrow>
                    (let (apiKey, w1) = generateApiKey w
                     in case query_insert_usuario now e customerId planName apiKey w1 of
                          Inl err \<Rightarrow> console_write (ErrCheckout err) w1
                        | Inr w2 \<Rightarrow> console_write (LogCheckoutProcessado e) w2)
                | Inr (row # _) \<Rightarrow>
                    (let (apiKey, w1) =
                           (case snd row of
                              None \<Rightarrow> generateApiKey w
                            | Some k \<Rightarrow> if k = [] then generateApiKey w else (k, w))
                     in case query_update_checkout now customerId planName apiKey e w1 of
                          Inl err \<Rightarrow> console_write (ErrCheckout err) w1
                        | Inr w2 \<Rightarrow> console_write (LogCheckoutProcessado e) w2)))"

text \<open>
  The choice of plan name and renewal clause in \<^verbatim>\<open>handleInvoicePaid\<close>, from
  \<^verbatim>\<open>subscription.items.data[0].plan\<close>.
\<close>

definition invoice_plan :: "stripe_plan \<Rightarrow> string \<times> sql_clause" where
  "invoice_plan plan =
     (if interval plan = ''year'' then (''Plano Anual'', DATE_ADD_NOW 1 YEAR)
      else if interval plan = ''month'' \<and> interval_count plan = 3
      then (''Plano Trimestral'', DATE_ADD_NOW 3 MONTH)
      else (''Plano Personalizado'', DATE_ADD_NOW 1 MONTH))"

definition handleInvoicePaid ::
  "stripe_env \<Rightarrow> timestamp \<Rightarrow> stripe_object \<Rightarrow> world \<Rightarrow> world" where
  "handleInvoicePaid env now invoice w =
     (case subscription invoice of
        None \<Rightarrow> w
      | Some subscriptionId \<Rightarrow>
     (case customer invoice of
        None \<Rightarrow> w
      | Some customerId \<Rightarrow>
          if subscriptionId = [] \<or> customerId = [] then w
          else
            (case subscriptions_retrieve env subscriptionId of
               Inl msg \<Rightarrow> console_write (ErrInvoice (StripeError msg)) w
             | Inr sub \<Rightarrow>
            (case customers_retrieve env customerId of
               Inl msg \<Rightarrow> console_write (ErrInvoice (StripeError msg)) w
             | Inr cus \<Rightarrow>
            (case items_data sub of
               [] \<Rightarrow> console_write (ErrInvoice TypeError) w
             | plan # _ \<Rightarrow>
                 (let (planName, intervalClause) = invoice_plan plan
                  in case query_update_invoice now intervalClause planName (cus_email cus) w of
                       Inl err \<Rightarrow> console_write (ErrInvoice err) w
                     | Inr w1 \<Rightarrow>
                         console_write (LogInvoiceAtualizado (cus_email cus)) w1))))))"

definition handleSubscriptionCanceled ::
  "stripe_env \<Rightarrow> timestamp \<Rightarrow> stripe_object \<Rightarrow> world \<Rightarrow> world" where
  "handleSubscriptionCanceled env now sub w =
     (case customer sub of
        None \<Rightarrow> w
      | Some customerId \<Rightarrow>
          if customerId = [] then w
          else
            (case customers_retrieve env customerId of
               Inl msg \<Rightarrow> console_write (ErrCancelamento (StripeError msg)) w
             | Inr cus \<Rightarrow>
                 (case query_update_canceled now (cus_email cus) w of
                    Inl err \<Rightarrow> console_write (ErrCancelamento err) w
                  | Inr w1 \<Rightarrow>
                      console_write (LogAssinaturaCancelada (cus_email cus)) w1)))"

section \<open>The route \<^verbatim>\<open>POST /webhook-stripe\<close>\<close>

datatype api_error = PlanoNaoEspecificado | PlanoInvalido | ErrorMessage string

datatype body =
    Failure api_error
  | Session string
  | StatusSuccess
  | WebhookErrorText string

record response =
  status_code :: nat
  res_body :: body

record webhook_request =
  raw_body :: string
  stripe_signature :: "string option"

text \<open>The \<^verbatim>\<open>switch\<close> on \<^verbatim>\<open>event.type\<close>.\<close>

definition dispatch_event :: "stripe_env \<Rightarrow> timestamp \<Rightarrow> stripe_event \<Rightarrow> world \<Rightarrow> world" where
  "dispatch_event env now event w =
     (if ev_type event = ''checkout.session.completed''
      then handleCheckoutSessionCompleted env now (data_object event) w
      else if ev_type event = ''invoice.paid''
      then handleInvoicePaid env now (data_object event) w
      else if ev_type event = ''customer.subscription.deleted''
      then handleSubscriptionCanceled env now (data_object event) w
      else console_write (LogEventoNaoTratado (ev_type event)) w)"

text \<open>
  The route answers without waiting for the handler it started; the state returned is
  the one the handler leaves when it has run.
\<close>

definition webhook_stripe ::
  "stripe_env \<Rightarrow> timestamp \<Rightarrow> webhook_request \<Rightarrow> world \<Rightarrow> response \<times> world" where
  "webhook_stripe env now req w =
     (case constructEvent env (raw_body req) (stripe_signature req)
             (STRIPE_WEBHOOK_SECRET env) of
        Inl msg \<Rightarrow>
          (\<lparr> status_code = 400, res_body = WebhookErrorText msg \<rparr>,
           console_write (ErrWebhook msg) w)
      | Inr event \<Rightarrow>
          (\<lparr> status_code = 200, res_body = StatusSuccess \<rparr>,
           dispatch_event env now event w))"

section \<open>The route \<^verbatim>\<open>POST /api/create-checkout-session\<close>\<close>

record checkout_request =
  planId :: jsval
  req_email :: jsval
  protocol :: string
  host :: "string option"

text \<open>
  The plan table of the route: amount in centavos, interval, interval count and name.
\<close>

definition catalog :: "jsval \<Rightarrow> (nat \<times> string \<times> int \<times> string) option" where
  "catalog p =
     (if p = JStr ''trimestral'' then Some (7500, ''month'', 3, ''Plano Trimestral'')
      else if p = JStr ''anual'' then Some (18000, ''year'', 1, ''Plano Anual'')
      else None)"

text \<open>The route's \<^verbatim>\<open>catch\<close>: the error is written to the console and answered with a 500.\<close>

definition checkout_failed :: "string \<Rightarrow> world \<Rightarrow> response \<times> world" where
  "checkout_failed msg w =
     (\<lparr> status_code = 500, res_body = Failure (ErrorMessage msg) \<rparr>,
      console_write (ErrCheckoutSession (StripeError msg)) w)"

text \<open>\<^verbatim>\<open>req.get("host")\<close> inside a template string: a missing header reads "undefined".\<close>

definition host_text :: "string option \<Rightarrow> string" where
  "host_text h = (case h of None \<Rightarrow> ''undefined'' | Some s \<Rightarrow> s)"

definition create_checkout_session ::
  "stripe_env \<Rightarrow> checkout_request \<Rightarrow> world \<Rightarrow> response \<times> world" where
  "create_checkout_session env req w =
     (if \<not> js_truthy (planId req)
      then (\<lparr> status_code = 400, res_body = Failure PlanoNaoEspecificado \<rparr>, w)
      else
        (case catalog (planId req) of
           None \<Rightarrow> (\<lparr> status_code = 400, res_body = Failure PlanoInvalido \<rparr>, w)
         | Some (amount, interval_v, intervalCount, planName) \<Rightarrow>
        (let description = ''Assinatura '' @ planName @ '' do PayoutHub''
         in case products_create env planName description of
           Inl msg \<Rightarrow> checkout_failed msg w
         | Inr product_id \<Rightarrow>
        (let w1 = w\<lparr>stripe_calls := stripe_calls w @ [ProductsCreate planName description]\<rparr>
         in case prices_create env product_id amount ''brl'' interval_v intervalCount of
           Inl msg \<Rightarrow> checkout_failed msg w1
         | Inr price_id \<Rightarrow>
        (let w2 = w1\<lparr>stripe_calls := stripe_calls w1 @
                      [PricesCreate product_id amount ''brl'' interval_v intervalCount]\<rparr>;
             checkoutData =
               \<lparr> success_url = protocol req @ ''://'' @ host_text (host req) @
                   ''/checkout-success?session_id={CHECKOUT_SESSION_ID}'',
                 cancel_url = protocol req @ ''://'' @ host_text (host req) @ ''/'',
                 mode = ''subscription'',
                 line_items = [(price_id, 1)],
                 cd_metadata = [(''plan'', planName)],
                 cd_customer = None \<rparr>;
             with_customer =
               (if js_truthy (req_email req)
                then (case customers_list env (req_email req) of
                        Inl msg \<Rightarrow> Inl (msg, w2)
                      | Inr (c # _) \<Rightarrow> Inr (checkoutData\<lparr>cd_customer := Some (cus_id c)\<rparr>, w2)
                      | Inr [] \<Rightarrow>
                          (case customers_create env (req_email req) ''Cliente PayoutHub'' of
                             Inl msg \<Rightarrow> Inl (msg, w2)
                           | Inr c \<Rightarrow>
                               Inr (checkoutData\<lparr>cd_customer := Some (cus_id c)\<rparr>,
                                    w2\<lparr>stripe_calls := stripe_calls w2 @
                                         [CustomersCreate (req_email req)
                                            ''Cliente PayoutHub'']\<rparr>)))
                else Inr (checkoutData, w2))
         in case with_customer of
              Inl (msg, w3) \<Rightarrow> checkout_failed msg w3
            | Inr (cd, w3) \<Rightarrow>
                (case sessions_create env cd of
                   Inl msg \<Rightarrow> checkout_failed msg w3
                 | Inr session_id \<Rightarrow>
                     (\<lparr> status_code = 200, res_body = Session session_id \<rparr>,
                      w3\<lparr>stripe_calls := stripe_calls w3 @ [SessionsCreate cd]\<rparr>)))))))"

section \<open>Observations used to state the properties\<close>

text \<open>The pairs of email and access token held by the table.\<close>

definition tokens :: "world \<Rightarrow> (string \<times> string option) list" where
  "tokens w = map (\<lambda>r. (email r, api_key r)) (usuarios w)"

text \<open>Emails are unique and the record of \<open>e\<close> holds the token \<open>k\<close>.\<close>

definition token_held :: "string \<Rightarrow> string \<Rightarrow> world \<Rightarrow> bool" where
  "token_held e k w = (distinct (map fst (tokens w)) \<and> (e, Some k) \<in> set (tokens w))"

text \<open>
  The key that the update path of \<^verbatim>\<open>handleCheckoutSessionCompleted\<close> writes when
  \<open>r0\<close> is the first row selected: \<^verbatim>\<open>rows[0].api_key\<close> unless that is falsy.
\<close>

definition checkout_key :: "usuario \<Rightarrow> world \<Rightarrow> string" where
  "checkout_key r0 w =
     (case api_key r0 of None \<Rightarrow> fst (generateApiKey w)
      | Some k \<Rightarrow> if k = [] then fst (generateApiKey w) else k)"

text \<open>A row without the columns that are set from the clock of the write.\<close>

definition strip_time :: "usuario \<Rightarrow> usuario" where
  "strip_time r = r\<lparr>data_assinatura := None, data_renovacao := None, data_modificacao := None\<rparr>"

text \<open>Verified events delivered one after the other, each with the time of its write.\<close>

fun run_events :: "stripe_env \<Rightarrow> (timestamp \<times> stripe_event) list \<Rightarrow> world \<Rightarrow> world" where
  "run_events env [] w = w"
| "run_events env ((now, event) # rest) w = run_events env rest (dispatch_event env now event w)"

subsection \<open>Sample inputs\<close>

definition sample_now :: timestamp where
  "sample_now = \<lparr> ts_year = 2024, ts_month = 11, ts_day = 30, ts_time = 43200 \<rparr>"

definition sample_later :: timestamp where
  "sample_later = \<lparr> ts_year = 2025, ts_month = 1, ts_day = 31, ts_time = 600 \<rparr>"

definition sample_session :: stripe_object where
  "sample_session =
     \<lparr> customer_details = Some \<lparr> cd_email = Some ''a@x.com'' \<rparr>,
       customer = Some ''cus_1'',
       metadata = Some [(''plan'', ''Plano Anual'')],
       subscription = Some ''sub_1'' \<rparr>"

definition sample_invoice :: stripe_object where
  "sample_invoice =
     \<lparr> customer_details = None, customer = Some ''cus_1'', metadata = None,
       subscription = Some ''sub_1'' \<rparr>"

definition sample_event :: stripe_event where
  "sample_event = \<lparr> ev_type = ''checkout.session.completed'', data_object = sample_session \<rparr>"

definition sample_env :: stripe_env where
  "sample_env =
     \<lparr> STRIPE_WEBHOOK_SECRET = Some ''whsec_1'',
       constructEvent = (\<lambda>payload sig secret.
          if sig = Some ''t=1,v1=good'' then Inr (sample_event\<lparr>ev_type := payload\<rparr>)
          else Inl ''No signatures found matching the expected signature''),
       subscriptions_retrieve = (\<lambda>i.
          if i = ''sub_1''
          then Inr \<lparr> items_data = [\<lparr> interval = ''year'', interval_count = 1 \<rparr>] \<rparr>
          else Inl ''No such subscription''),
       customers_retrieve = (\<lambda>i.
          if i = ''cus_1'' then Inr \<lparr> cus_id = ''cus_1'', cus_email = Some ''a@x.com'' \<rparr>
          else Inl ''No such customer''),
       customers_list = (\<lambda>e. Inr []),
       customers_create = (\<lambda>e d. Inr \<lparr> cus_id = ''cus_2'', cus_email = None \<rparr>),
       products_create = (\<lambda>n d. Inr ''prod_1''),
       prices_create = (\<lambda>p a c i n. Inr ''price_1''),
       sessions_create = (\<lambda>d. Inr ''cs_1'') \<rparr>"

definition sample_row :: usuario where
  "sample_row =
     \<lparr> id_u = 1, email = ''a@x.com'', nome = None, stripe_customer_id = Some ''cus_0'',
       status = Some ''inativo'', plano = Some ''Plano Trimestral'', api_key = Some ''tok'',
       data_criacao = None, data_assinatura = None, data_renovacao = None,
       data_modificacao = None \<rparr>"

definition empty_world :: world where
  "empty_world =
     \<lparr> usuarios = [], next_id = 1, db_online = True, console = [],
       entropy = (\<lambda>i. of_nat i), entropy_pos = 0, stripe_calls = [] \<rparr>"

definition sample_world :: world where
  "sample_world = empty_world\<lparr>usuarios := [sample_row], next_id := 2\<rparr>"

text \<open>The record that the first completed checkout of the samples creates.\<close>

definition sample_key_row :: usuario where
  "sample_key_row =
     \<lparr> id_u = 1, email = ''a@x.com'', nome = None,
        stripe_customer_id = Some ''cus_1'', status = Some ''ativo'',
        plano = Some ''Plano Anual'',
        api_key = Some ''AAECAwQFBgcICQoLDA0ODxAREhMUFRYXGBkaGxwdHh8'',
        data_criacao = Some sample_now, data_assinatura = Some sample_now,
        data_renovacao = Some \<lparr> ts_year = 2025, ts_month = 2, ts_day = 28, ts_time = 43200 \<rparr>,
        data_modificacao = None \<rparr>"

section \<open>Properties\<close>

subsection \<open>The sample inputs evaluated\<close>

lemmas sample_defs = sample_session_def sample_world_def empty_world_def sample_row_def
  sample_later_def sample_now_def sample_env_def sample_event_def

lemmas handler_defs = handleCheckoutSessionCompleted_def session_email_def session_planName_def
      query_select_email_api_key_def query_update_checkout_def console_write_def
      query_insert_usuario_def
      handleInvoicePaid_def query_update_invoice_def invoice_plan_def
      handleSubscriptionCanceled_def query_update_canceled_def dispatch_event_def

lemmas date_defs = add_months_def days_in_month_def leap_year_def

lemma sample_bytes: "fst (randomBytes 32 empty_world) =
  [0,1,2,3,4,5,6,7,8,9,10,11,12,13,14,15,16,17,18,19,20,21,22,23,24,25,26,27,28,29,30,31]"
  by (simp add: randomBytes_def empty_world_def upt_rec)

lemma sample_key: "fst (generateApiKey empty_world) = ''AAECAwQFBgcICQoLDA0ODxAREhMUFRYXGBkaGxwdHh8''"
  unfolding generateApiKey_def split_beta Let_def fst_conv sample_bytes
  by (simp add: b64url_char_def b64url_alphabet_def)

subsection \<open>Key generation\<close>

lemma base64url_nonempty: "bs \<noteq> [] \<Longrightarrow> base64url bs \<noteq> []"
  by (induction bs rule: base64url.induct) (simp_all add: Let_def)

lemma base64url_length: "length (base64url bs) = (4 * length bs + 2) div 3"
  by (induction bs rule: base64url.induct) (simp_all add: Let_def)

lemma generateApiKey_length: "length (fst (generateApiKey w)) = 43"
  by (simp add: generateApiKey_def randomBytes_def base64url_length)

lemma generateApiKey_nonempty: "fst (generateApiKey w) \<noteq> []"
  using generateApiKey_length [of w] by auto

lemma generateApiKey_world:
  "snd (generateApiKey w) = w\<lparr>entropy_pos := entropy_pos w + 32\<rparr>"
  by (simp add: generateApiKey_def randomBytes_def)

lemma generateApiKey_frame [simp]:
  "usuarios (snd (generateApiKey w)) = usuarios w"
  "db_online (snd (generateApiKey w)) = db_online w"
  "next_id (snd (generateApiKey w)) = next_id w"
  "console (snd (generateApiKey w)) = console w"
  "stripe_calls (snd (generateApiKey w)) = stripe_calls w"
  by (simp_all add: generateApiKey_world)

subsection \<open>What each handler does to the state\<close>

lemma checkout_no_email:
  "falsy (session_email s) \<Longrightarrow>
   handleCheckoutSessionCompleted env now s w = console_write LogEmailNaoEncontrado w"
  by (auto simp: handleCheckoutSessionCompleted_def falsy_def)

lemma checkout_create_usuarios:
  assumes "session_email s = Some e" "e \<noteq> []" "db_online w"
    and "\<forall>r \<in> set (usuarios w). email r \<noteq> e"
  shows "usuarios (handleCheckoutSessionCompleted env now s w) =
         usuarios w @
           [\<lparr> id_u = next_id w, email = e, nome = None,
              stripe_customer_id = customer s, status = Some ''ativo'',
              plano = session_planName s, api_key = Some (fst (generateApiKey w)),
              data_criacao = Some now, data_assinatura = Some now,
              data_renovacao = Some (date_add now 3 MONTH),
              data_modificacao = None \<rparr>]"
proof -
  have "filter (\<lambda>r. email r = e) (usuarios w) = []"
    using assms(4) by (simp add: filter_empty_conv)
  moreover have "e \<notin> email ` set (usuarios w)"
    using assms(4) by auto
  ultimately show ?thesis
    using assms
    by (simp add: handleCheckoutSessionCompleted_def query_select_email_api_key_def
        query_insert_usuario_def console_write_def split_beta)
qed

lemma checkout_update_usuarios:
  assumes "session_email s = Some e" "e \<noteq> []" "db_online w"
    and "filter (\<lambda>r. email r = e) (usuarios w) = r0 # rest"
  shows "usuarios (handleCheckoutSessionCompleted env now s w) =
         map (\<lambda>r. if email r = e
                   then r\<lparr>stripe_customer_id := customer s, status := Some ''ativo'',
                          plano := session_planName s,
                          api_key := Some (checkout_key r0 w),
                          data_assinatura := Some now,
                          data_renovacao := Some (date_add now 3 MONTH)\<rparr>
                   else r) (usuarios w)"
  using assms
  by (simp add: handleCheckoutSessionCompleted_def query_select_email_api_key_def
        query_update_checkout_def console_write_def split_beta checkout_key_def
        split: option.splits)

lemma checkout_offline:
  "\<not> db_online w \<Longrightarrow> usuarios (handleCheckoutSessionCompleted env now s w) = usuarios w"
  by (simp add: handleCheckoutSessionCompleted_def query_select_email_api_key_def
        console_write_def Let_def split: option.splits)


lemma invoice_missing_ids:
  "falsy (subscription invoice) \<or> falsy (customer invoice) \<Longrightarrow> handleInvoicePaid env now invoice w = w"
  by (auto simp: handleInvoicePaid_def falsy_def split: option.splits)

lemma invoice_update:
  assumes "subscription invoice = Some sid" "sid \<noteq> []" "customer invoice = Some cid" "cid \<noteq> []"
    and "subscriptions_retrieve env sid = Inr sub" "customers_retrieve env cid = Inr cus"
    and "items_data sub = plan # rest" "db_online w"
  shows "handleInvoicePaid env now invoice w =
         w\<lparr>usuarios := map (\<lambda>r.
              if Some (email r) = cus_email cus
              then r\<lparr>status := Some ''ativo'', plano := Some (fst (invoice_plan plan)),
                     data_renovacao := Some (eval_clause (snd (invoice_plan plan)) now),
                     data_modificacao := Some now\<rparr>
              else r) (usuarios w),
           console := console w @ [LogInvoiceAtualizado (cus_email cus)]\<rparr>"
  using assms
  by (simp add: handleInvoicePaid_def query_update_invoice_def console_write_def split_beta)

lemma canceled_missing_id:
  "falsy (customer sub) \<Longrightarrow> handleSubscriptionCanceled env now sub w = w"
  by (auto simp: handleSubscriptionCanceled_def falsy_def split: option.splits)

lemma canceled_update:
  assumes "customer sub = Some cid" "cid \<noteq> []"
    and "customers_retrieve env cid = Inr cus" "db_online w"
  shows "handleSubscriptionCanceled env now sub w =
         w\<lparr>usuarios := map (\<lambda>r.
              if Some (email r) = cus_email cus
              then r\<lparr>status := Some ''inativo'', data_modificacao := Some now\<rparr>
              else r) (usuarios w),
           console := console w @ [LogAssinaturaCancelada (cus_email cus)]\<rparr>"
  using assms
  by (simp add: handleSubscriptionCanceled_def query_update_canceled_def console_write_def)


lemma checkout_db_online [simp]:
  "db_online (handleCheckoutSessionCompleted env now s w) = db_online w"
  by (simp add: handleCheckoutSessionCompleted_def query_select_email_api_key_def
      query_insert_usuario_def query_update_checkout_def
      console_write_def Let_def split_beta generateApiKey_world
      split: option.splits sum.splits list.splits)

lemma invoice_db_online [simp]:
  "db_online (handleInvoicePaid env now invoice w) = db_online w"
  by (simp add: handleInvoicePaid_def query_update_invoice_def
      console_write_def Let_def split_beta
      split: option.splits sum.splits list.splits)

lemma canceled_db_online [simp]:
  "db_online (handleSubscriptionCanceled env now sub w) = db_online w"
  by (simp add: handleSubscriptionCanceled_def query_update_canceled_def
      console_write_def Let_def split_beta
      split: option.splits sum.splits list.splits)

lemma invoice_tokens: "tokens (handleInvoicePaid env now invoice w) = tokens w"
  by (simp add: handleInvoicePaid_def query_update_invoice_def tokens_def
      console_write_def Let_def split_beta
      split: option.splits sum.splits list.splits)

lemma canceled_tokens: "tokens (handleSubscriptionCanceled env now sub w) = tokens w"
  by (simp add: handleSubscriptionCanceled_def query_update_canceled_def tokens_def
      console_write_def Let_def split_beta
      split: option.splits sum.splits list.splits)

text \<open>The four ways through \<^verbatim>\<open>handleCheckoutSessionCompleted\<close>.\<close>

lemma checkout_cases:
  fixes s :: stripe_object and w :: world
  obtains (no_email) "falsy (session_email s)"
  | (offline) "\<not> db_online w"
  | (created) e where "session_email s = Some e" "e \<noteq> []" "db_online w"
      "\<forall>r \<in> set (usuarios w). email r \<noteq> e"
  | (updated) e r0 rest where "session_email s = Some e" "e \<noteq> []" "db_online w"
      "filter (\<lambda>r. email r = e) (usuarios w) = r0 # rest"
proof (cases "falsy (session_email s) \<or> \<not> db_online w")
  case True
  then show ?thesis using no_email offline by blast
next
  case False
  then obtain e where e: "session_email s = Some e" "e \<noteq> []" "db_online w"
    by (auto simp: falsy_def)
  show ?thesis
  proof (cases "filter (\<lambda>r. email r = e) (usuarios w)")
    case Nil
    then have "\<forall>r \<in> set (usuarios w). email r \<noteq> e"
      by (simp add: filter_empty_conv)
    with e show ?thesis using created by blast
  next
    case (Cons r0 rest)
    with e show ?thesis using updated by blast
  qed
qed

subsection \<open>Completed checkouts\<close>

lemma checkout_update_row:
  fixes s :: stripe_object and w :: world
  assumes "session_email s = Some e" "e \<noteq> []" "db_online w"
    and "distinct (map email (usuarios w))"
    and "i < length (usuarios w)" "email (usuarios w ! i) = e"
  shows "usuarios (handleCheckoutSessionCompleted env now s w) =
         (usuarios w)[i := (usuarios w ! i)
            \<lparr>stripe_customer_id := customer s, status := Some ''ativo'',
             plano := session_planName s,
             api_key := Some (checkout_key (usuarios w ! i) w),
             data_assinatura := Some now,
             data_renovacao := Some (date_add now 3 MONTH)\<rparr>]"
proof -
  let ?us = "usuarios w"
  have mem: "?us ! i \<in> set (filter (\<lambda>r. email r = e) ?us)"
    using assms(5,6) by simp
  then obtain r0 rest where flt: "filter (\<lambda>r. email r = e) ?us = r0 # rest"
    by (cases "filter (\<lambda>r. email r = e) ?us") auto
  then have "r0 \<in> set (filter (\<lambda>r. email r = e) ?us)" by simp
  then have r0: "r0 \<in> set ?us" "email r0 = e" by simp_all
  have inj: "inj_on email (set ?us)"
    using assms(4) by (simp add: distinct_map)
  have same: "r = ?us ! i" if "r \<in> set ?us" "email r = e" for r
    using inj that assms(5,6) by (auto dest: inj_onD)
  then have r0_eq: "r0 = ?us ! i" using r0 by blast
  note upd = checkout_update_usuarios [OF assms(1-3) flt, of env now]
  show ?thesis
  proof (rule nth_equalityI)
    show "length (usuarios (handleCheckoutSessionCompleted env now s w)) =
          length (?us[i := (?us ! i)
            \<lparr>stripe_customer_id := customer s, status := Some ''ativo'',
             plano := session_planName s,
             api_key := Some (checkout_key (?us ! i) w),
             data_assinatura := Some now,
             data_renovacao := Some (date_add now 3 MONTH)\<rparr>])"
      by (simp add: upd)
  next
    fix j
    assume "j < length (usuarios (handleCheckoutSessionCompleted env now s w))"
    then have j: "j < length ?us" by (simp add: upd)
    show "usuarios (handleCheckoutSessionCompleted env now s w) ! j =
          ?us[i := (?us ! i)
            \<lparr>stripe_customer_id := customer s, status := Some ''ativo'',
             plano := session_planName s,
             api_key := Some (checkout_key (?us ! i) w),
             data_assinatura := Some now,
             data_renovacao := Some (date_add now 3 MONTH)\<rparr>] ! j"
    proof (cases "email (?us ! j) = e")
      case True
      then have "?us ! j = ?us ! i" using same j by simp
      moreover have "j = i"
        using assms(4,5) j True assms(6)
        by (metis distinct_conv_nth length_map nth_map)
      ultimately show ?thesis using j True by (simp add: upd r0_eq)
    next
      case False
      then have "j \<noteq> i" using assms(6) by auto
      with False j show ?thesis by (simp add: upd)
    qed
  qed
qed

lemma generateApiKey_bytes:
  "fst (generateApiKey w) = base64url (map (entropy w) [entropy_pos w ..< entropy_pos w + 32])"
  by (simp add: generateApiKey_def randomBytes_def)

lemma checkout_create_world:
  fixes s :: stripe_object and w :: world
  assumes "session_email s = Some e" "e \<noteq> []" "db_online w"
    and "\<forall>r \<in> set (usuarios w). email r \<noteq> e"
  shows "handleCheckoutSessionCompleted env now s w =
         w\<lparr>usuarios := usuarios w @
             [\<lparr> id_u = next_id w, email = e, nome = None,
                stripe_customer_id = customer s, status = Some ''ativo'',
                plano = session_planName s, api_key = Some (fst (generateApiKey w)),
                data_criacao = Some now, data_assinatura = Some now,
                data_renovacao = Some (date_add now 3 MONTH),
                data_modificacao = None \<rparr>],
           next_id := next_id w + 1,
           console := console w @ [LogCheckoutProcessado e],
           entropy_pos := entropy_pos w + 32\<rparr>"
proof -
  have "filter (\<lambda>r. email r = e) (usuarios w) = []"
    using assms(4) by (simp add: filter_empty_conv)
  moreover have "e \<notin> email ` set (usuarios w)"
    using assms(4) by auto
  ultimately show ?thesis
    using assms
    by (simp add: handleCheckoutSessionCompleted_def query_select_email_api_key_def
        query_insert_usuario_def console_write_def split_beta generateApiKey_world)
qed

text \<open>
  Claim C1. For a CheckoutCompleted event: when the session has no customer details, or
  their email is absent or empty, the handler only writes a line to the console. When the
  email has no record (and the database is reachable) one record is appended with status
  \<^verbatim>\<open>ativo\<close>, the plan label \<^verbatim>\<open>metadata.plan\<close> of the session (or
  \<^verbatim>\<open>desconhecido\<close> without metadata), the session's customer id, an access token that is
  the base64url text of the next 32 bytes of the random source (43 characters, and those
  bytes are consumed), \<^verbatim>\<open>data_assinatura\<close> = now and \<^verbatim>\<open>data_renovacao\<close> = now + 3
  months. When the email has a record (emails being unique) exactly that record is updated
  to status \<^verbatim>\<open>ativo\<close> with the same plan label, customer id and dates; a non-empty
  access token it already holds is kept, and otherwise a token is generated as above.
\<close>

theorem checkout_completed_effect:
  fixes s :: stripe_object and w :: world
  shows
    "(customer_details s = None \<or>
      (\<exists>cd. customer_details s = Some cd \<and> (cd_email cd = None \<or> cd_email cd = Some [])) \<longrightarrow>
        handleCheckoutSessionCompleted env now s w =
          w\<lparr>console := console w @ [LogEmailNaoEncontrado]\<rparr>) \<and>
     (customer_details s = Some cd \<and> cd_email cd = Some e \<and> e \<noteq> [] \<and> db_online w \<and>
      e \<notin> set (map email (usuarios w)) \<longrightarrow>
        handleCheckoutSessionCompleted env now s w =
          w\<lparr>usuarios := usuarios w @
              [\<lparr> id_u = next_id w, email = e, nome = None,
                 stripe_customer_id = customer s, status = Some ''ativo'',
                 plano = (case metadata s of None \<Rightarrow> Some ''desconhecido''
                          | Some m \<Rightarrow> map_of m ''plan''),
                 api_key = Some (base64url
                   (map (entropy w) [entropy_pos w ..< entropy_pos w + 32])),
                 data_criacao = Some now, data_assinatura = Some now,
                 data_renovacao = Some (date_add now 3 MONTH),
                 data_modificacao = None \<rparr>],
            next_id := next_id w + 1,
            console := console w @ [LogCheckoutProcessado e],
            entropy_pos := entropy_pos w + 32\<rparr> \<and>
        length (base64url (map (entropy w) [entropy_pos w ..< entropy_pos w + 32])) = 43) \<and>
     (customer_details s = Some cd \<and> cd_email cd = Some e \<and> e \<noteq> [] \<and> db_online w \<and>
      distinct (map email (usuarios w)) \<and>
      i < length (usuarios w) \<and> email (usuarios w ! i) = e \<longrightarrow>
        usuarios (handleCheckoutSessionCompleted env now s w) =
          (usuarios w)[i := (usuarios w ! i)
             \<lparr>stripe_customer_id := customer s, status := Some ''ativo'',
              plano := (case metadata s of None \<Rightarrow> Some ''desconhecido''
                        | Some m \<Rightarrow> map_of m ''plan''),
              api_key := Some
                (case api_key (usuarios w ! i) of
                   None \<Rightarrow> base64url (map (entropy w) [entropy_pos w ..< entropy_pos w + 32])
                 | Some k \<Rightarrow>
                     if k = []
                     then base64url (map (entropy w) [entropy_pos w ..< entropy_pos w + 32])
                     else k),
              data_assinatura := Some now,
              data_renovacao := Some (date_add now 3 MONTH)\<rparr>])"
proof (intro conjI impI)
  assume "customer_details s = None \<or>
      (\<exists>cd. customer_details s = Some cd \<and> (cd_email cd = None \<or> cd_email cd = Some []))"
  then have "falsy (session_email s)"
    by (auto simp: falsy_def session_email_def)
  then show "handleCheckoutSessionCompleted env now s w =
      w\<lparr>console := console w @ [LogEmailNaoEncontrado]\<rparr>"
    by (simp add: checkout_no_email console_write_def)
next
  assume a: "customer_details s = Some cd \<and> cd_email cd = Some e \<and> e \<noteq> [] \<and> db_online w \<and>
      e \<notin> set (map email (usuarios w))"
  then have f: "session_email s = Some e" "e \<noteq> []" "db_online w"
    "\<forall>r \<in> set (usuarios w). email r \<noteq> e"
    by (auto simp: session_email_def)
  have plan: "session_planName s =
      (case metadata s of None \<Rightarrow> Some ''desconhecido'' | Some m \<Rightarrow> map_of m ''plan'')"
    by (simp add: session_planName_def split: option.splits)
  show "handleCheckoutSessionCompleted env now s w =
          w\<lparr>usuarios := usuarios w @
              [\<lparr> id_u = next_id w, email = e, nome = None,
                 stripe_customer_id = customer s, status = Some ''ativo'',
                 plano = (case metadata s of None \<Rightarrow> Some ''desconhecido''
                          | Some m \<Rightarrow> map_of m ''plan''),
                 api_key = Some (base64url
                   (map (entropy w) [entropy_pos w ..< entropy_pos w + 32])),
                 data_criacao = Some now, data_assinatura = Some now,
                 data_renovacao = Some (date_add now 3 MONTH),
                 data_modificacao = None \<rparr>],
            next_id := next_id w + 1,
            console := console w @ [LogCheckoutProcessado e],
            entropy_pos := entropy_pos w + 32\<rparr>"
    unfolding checkout_create_world [OF f] plan generateApiKey_bytes ..
  show "length (base64url (map (entropy w) [entropy_pos w ..< entropy_pos w + 32])) = 43"
    by (simp add: base64url_length)
next
  assume a: "customer_details s = Some cd \<and> cd_email cd = Some e \<and> e \<noteq> [] \<and> db_online w \<and>
      distinct (map email (usuarios w)) \<and>
      i < length (usuarios w) \<and> email (usuarios w ! i) = e"
  then have f: "session_email s = Some e" "e \<noteq> []" "db_online w"
    "distinct (map email (usuarios w))" "i < length (usuarios w)" "email (usuarios w ! i) = e"
    by (auto simp: session_email_def)
  have plan: "session_planName s =
      (case metadata s of None \<Rightarrow> Some ''desconhecido'' | Some m \<Rightarrow> map_of m ''plan'')"
    by (simp add: session_planName_def split: option.splits)
  show "usuarios (handleCheckoutSessionCompleted env now s w) =
          (usuarios w)[i := (usuarios w ! i)
             \<lparr>stripe_customer_id := customer s, status := Some ''ativo'',
              plano := (case metadata s of None \<Rightarrow> Some ''desconhecido''
                        | Some m \<Rightarrow> map_of m ''plan''),
              api_key := Some
                (case api_key (usuarios w ! i) of
                   None \<Rightarrow> base64url (map (entropy w) [entropy_pos w ..< entropy_pos w + 32])
                 | Some k \<Rightarrow>
                     if k = []
                     then base64url (map (entropy w) [entropy_pos w ..< entropy_pos w + 32])
                     else k),
              data_assinatura := Some now,
              data_renovacao := Some (date_add now 3 MONTH)\<rparr>]"
    unfolding checkout_update_row [OF f] plan checkout_key_def generateApiKey_bytes ..
qed


theorem checkout_completed_effect_witness:
  "customer_details (sample_session\<lparr>customer_details := None\<rparr>) = None \<and>
   handleCheckoutSessionCompleted sample_env sample_now
     (sample_session\<lparr>customer_details := None\<rparr>) sample_world =
     sample_world\<lparr>console := [LogEmailNaoEncontrado]\<rparr> \<and>
   handleCheckoutSessionCompleted sample_env sample_now
     (sample_session\<lparr>customer_details := Some \<lparr> cd_email = Some [] \<rparr>\<rparr>) sample_world =
     sample_world\<lparr>console := [LogEmailNaoEncontrado]\<rparr> \<and>
   customer_details sample_session = Some \<lparr> cd_email = Some ''a@x.com'' \<rparr> \<and>
   metadata sample_session = Some [(''plan'', ''Plano Anual'')] \<and>
   db_online empty_world \<and> ''a@x.com'' \<notin> set (map email (usuarios empty_world)) \<and>
   handleCheckoutSessionCompleted sample_env sample_now sample_session empty_world =
     empty_world\<lparr>usuarios :=
       [\<lparr> id_u = 1, email = ''a@x.com'', nome = None,
          stripe_customer_id = Some ''cus_1'', status = Some ''ativo'',
          plano = Some ''Plano Anual'',
          api_key = Some ''AAECAwQFBgcICQoLDA0ODxAREhMUFRYXGBkaGxwdHh8'',
          data_criacao = Some sample_now, data_assinatura = Some sample_now,
          data_renovacao = Some \<lparr> ts_year = 2025, ts_month = 2, ts_day = 28, ts_time = 43200 \<rparr>,
          data_modificacao = None \<rparr>],
       next_id := 2, console := [LogCheckoutProcessado ''a@x.com''], entropy_pos := 32\<rparr> \<and>
   distinct (map email (usuarios sample_world)) \<and> email (usuarios sample_world ! 0) = ''a@x.com'' \<and>
   api_key (usuarios sample_world ! 0) = Some ''tok'' \<and>
   usuarios (handleCheckoutSessionCompleted sample_env sample_later sample_session sample_world) =
     [sample_row\<lparr>stripe_customer_id := Some ''cus_1'', status := Some ''ativo'',
        plano := Some ''Plano Anual'', api_key := Some ''tok'',
        data_assinatura := Some sample_later,
        data_renovacao := Some \<lparr> ts_year = 2025, ts_month = 4, ts_day = 30, ts_time = 600 \<rparr>\<rparr>] \<and>
   usuarios (handleCheckoutSessionCompleted sample_env sample_later
       (sample_session\<lparr>metadata := None\<rparr>)
       (empty_world\<lparr>usuarios := [sample_row\<lparr>api_key := Some []\<rparr>]\<rparr>)) =
     [sample_row\<lparr>stripe_customer_id := Some ''cus_1'', status := Some ''ativo'',
        plano := Some ''desconhecido'',
        api_key := Some ''AAECAwQFBgcICQoLDA0ODxAREhMUFRYXGBkaGxwdHh8'',
        data_assinatura := Some sample_later,
        data_renovacao := Some \<lparr> ts_year = 2025, ts_month = 4, ts_day = 30, ts_time = 600 \<rparr>\<rparr>]"
proof -
  let ?s0 = "sample_session\<lparr>customer_details := None\<rparr>"
  let ?s1 = "sample_session\<lparr>customer_details := Some \<lparr> cd_email = Some [] \<rparr>\<rparr>"
  let ?s2 = "sample_session\<lparr>metadata := None\<rparr>"
  let ?w2 = "empty_world\<lparr>usuarios := [sample_row\<lparr>api_key := Some []\<rparr>]\<rparr>"
  let ?cd = "\<lparr> cd_email = Some ''a@x.com'' \<rparr>"
  have tok: "api_key sample_row = Some ''tok''" by (simp add: sample_row_def)
  have pos: "entropy_pos empty_world = 0" by (simp add: empty_world_def)
  have bytes: "base64url (map (entropy empty_world) [0 ..< 32]) =
      ''AAECAwQFBgcICQoLDA0ODxAREhMUFRYXGBkaGxwdHh8''"
    using sample_key by (simp add: generateApiKey_def randomBytes_def pos)
  have same: "entropy ?w2 = entropy empty_world" "entropy_pos ?w2 = entropy_pos empty_world"
    by simp_all
  have d: "add_months sample_now 3 =
      \<lparr> ts_year = 2025, ts_month = 2, ts_day = 28, ts_time = 43200 \<rparr>"
    "add_months sample_later 3 =
      \<lparr> ts_year = 2025, ts_month = 4, ts_day = 30, ts_time = 600 \<rparr>"
    by (simp_all add: sample_now_def sample_later_def date_defs)
  have h0: "customer_details ?s0 = None"
    "customer_details ?s1 = Some \<lparr> cd_email = Some [] \<rparr>"
    "console sample_world = []"
    by (simp_all add: sample_world_def empty_world_def)
  have h2: "customer_details sample_session = Some ?cd" "cd_email ?cd = Some ''a@x.com''"
    "''a@x.com'' \<noteq> []" "db_online empty_world"
    "''a@x.com'' \<notin> set (map email (usuarios empty_world))"
    "metadata sample_session = Some [(''plan'', ''Plano Anual'')]"
    "customer sample_session = Some ''cus_1''"
    by (simp_all add: sample_session_def empty_world_def)
  have e0: "usuarios empty_world = []" "next_id empty_world = 1" "console empty_world = []"
    "entropy_pos empty_world = 0"
    by (simp_all add: empty_world_def)
  have h3: "db_online sample_world" "distinct (map email (usuarios sample_world))"
    "0 < length (usuarios sample_world)" "email (usuarios sample_world ! 0) = ''a@x.com''"
    "api_key (usuarios sample_world ! 0) = Some ''tok''"
    "usuarios sample_world = [sample_row]"
    by (simp_all add: sample_world_def empty_world_def sample_row_def)
  have h4: "customer_details ?s2 = Some ?cd" "metadata ?s2 = None"
    "customer ?s2 = Some ''cus_1''"
    "db_online ?w2" "distinct (map email (usuarios ?w2))"
    "0 < length (usuarios ?w2)" "email (usuarios ?w2 ! 0) = ''a@x.com''"
    "api_key (usuarios ?w2 ! 0) = Some []"
    "usuarios ?w2 = [sample_row\<lparr>api_key := Some []\<rparr>]"
    by (simp_all add: sample_session_def empty_world_def sample_row_def)
  have c0: "handleCheckoutSessionCompleted sample_env sample_now ?s0 sample_world =
      sample_world\<lparr>console := [LogEmailNaoEncontrado]\<rparr>"
    using checkout_completed_effect [where s = ?s0 and env = sample_env and now = sample_now
        and w = sample_world] h0(1,3)
    by simp
  have c1: "handleCheckoutSessionCompleted sample_env sample_now ?s1 sample_world =
      sample_world\<lparr>console := [LogEmailNaoEncontrado]\<rparr>"
    using checkout_completed_effect [where s = ?s1 and env = sample_env and now = sample_now
        and w = sample_world] h0(2,3)
    by simp
  have "handleCheckoutSessionCompleted sample_env sample_now sample_session empty_world =
      empty_world\<lparr>usuarios := usuarios empty_world @
       [\<lparr> id_u = next_id empty_world, email = ''a@x.com'', nome = None,
          stripe_customer_id = customer sample_session, status = Some ''ativo'',
          plano = (case metadata sample_session of None \<Rightarrow> Some ''desconhecido''
                   | Some m \<Rightarrow> map_of m ''plan''),
          api_key = Some (base64url (map (entropy empty_world)
            [entropy_pos empty_world ..< entropy_pos empty_world + 32])),
          data_criacao = Some sample_now, data_assinatura = Some sample_now,
          data_renovacao = Some (date_add sample_now 3 MONTH),
          data_modificacao = None \<rparr>],
       next_id := next_id empty_world + 1,
       console := console empty_world @ [LogCheckoutProcessado ''a@x.com''],
       entropy_pos := entropy_pos empty_world + 32\<rparr>"
    using checkout_completed_effect [where s = sample_session and env = sample_env
        and now = sample_now and w = empty_world and cd = ?cd and e = "''a@x.com''"] h2(1-5)
    by blast
  then have c2: "handleCheckoutSessionCompleted sample_env sample_now sample_session empty_world =
     empty_world\<lparr>usuarios :=
       [\<lparr> id_u = 1, email = ''a@x.com'', nome = None,
          stripe_customer_id = Some ''cus_1'', status = Some ''ativo'',
          plano = Some ''Plano Anual'',
          api_key = Some ''AAECAwQFBgcICQoLDA0ODxAREhMUFRYXGBkaGxwdHh8'',
          data_criacao = Some sample_now, data_assinatura = Some sample_now,
          data_renovacao = Some \<lparr> ts_year = 2025, ts_month = 2, ts_day = 28, ts_time = 43200 \<rparr>,
          data_modificacao = None \<rparr>],
       next_id := 2, console := [LogCheckoutProcessado ''a@x.com''], entropy_pos := 32\<rparr>"
    by (simp add: bytes d h2(6,7) e0)
  have "usuarios (handleCheckoutSessionCompleted sample_env sample_later sample_session
        sample_world) =
      (usuarios sample_world)[0 := (usuarios sample_world ! 0)
         \<lparr>stripe_customer_id := customer sample_session, status := Some ''ativo'',
          plano := (case metadata sample_session of None \<Rightarrow> Some ''desconhecido''
                    | Some m \<Rightarrow> map_of m ''plan''),
          api_key := Some
            (case api_key (usuarios sample_world ! 0) of
               None \<Rightarrow> base64url (map (entropy sample_world)
                 [entropy_pos sample_world ..< entropy_pos sample_world + 32])
             | Some k \<Rightarrow>
                 if k = []
                 then base64url (map (entropy sample_world)
                   [entropy_pos sample_world ..< entropy_pos sample_world + 32])
                 else k),
          data_assinatura := Some sample_later,
          data_renovacao := Some (date_add sample_later 3 MONTH)\<rparr>]"
    using checkout_completed_effect [where s = sample_session and env = sample_env
        and now = sample_later and w = sample_world and cd = ?cd and e = "''a@x.com''"
        and i = 0] h2(1-3) h3(1-4)
    by blast
  then have c3: "usuarios (handleCheckoutSessionCompleted sample_env sample_later sample_session
        sample_world) =
     [sample_row\<lparr>stripe_customer_id := Some ''cus_1'', status := Some ''ativo'',
        plano := Some ''Plano Anual'', api_key := Some ''tok'',
        data_assinatura := Some sample_later,
        data_renovacao := Some \<lparr> ts_year = 2025, ts_month = 4, ts_day = 30, ts_time = 600 \<rparr>\<rparr>]"
    by (simp add: h3(6) tok d h2(6,7))
  have "usuarios (handleCheckoutSessionCompleted sample_env sample_later ?s2 ?w2) =
      (usuarios ?w2)[0 := (usuarios ?w2 ! 0)
         \<lparr>stripe_customer_id := customer ?s2, status := Some ''ativo'',
          plano := (case metadata ?s2 of None \<Rightarrow> Some ''desconhecido''
                    | Some m \<Rightarrow> map_of m ''plan''),
          api_key := Some
            (case api_key (usuarios ?w2 ! 0) of
               None \<Rightarrow> base64url (map (entropy ?w2) [entropy_pos ?w2 ..< entropy_pos ?w2 + 32])
             | Some k \<Rightarrow>
                 if k = []
                 then base64url (map (entropy ?w2) [entropy_pos ?w2 ..< entropy_pos ?w2 + 32])
                 else k),
          data_assinatura := Some sample_later,
          data_renovacao := Some (date_add sample_later 3 MONTH)\<rparr>]"
    using checkout_completed_effect [where s = ?s2 and env = sample_env
        and now = sample_later and w = ?w2 and cd = ?cd and e = "''a@x.com''"
        and i = 0] h4(1) h2(2,3) h4(4-7)
    by blast
  then have c4: "usuarios (handleCheckoutSessionCompleted sample_env sample_later ?s2 ?w2) =
     [sample_row\<lparr>stripe_customer_id := Some ''cus_1'', status := Some ''ativo'',
        plano := Some ''desconhecido'',
        api_key := Some ''AAECAwQFBgcICQoLDA0ODxAREhMUFRYXGBkaGxwdHh8'',
        data_assinatura := Some sample_later,
        data_renovacao := Some \<lparr> ts_year = 2025, ts_month = 4, ts_day = 30, ts_time = 600 \<rparr>\<rparr>]"
    by (simp add: h4(8,9) same pos bytes d h4(2,3))
  show ?thesis
    using h0(1) h2(1,4,5,6) h3(2,4,5) c0 c1 c2 c3 c4 by blast
qed

text \<open>
  Claim C10. When the session of a CheckoutCompleted event carries no metadata object (and
  the event has an email and the database is reachable), the email has a record afterwards
  and every record of that email has the plan \<^verbatim>\<open>desconhecido\<close>, whether the record was
  created or updated.
\<close>

theorem checkout_without_metadata_plan:
  fixes s :: stripe_object and w :: world
  assumes "metadata s = None" and "session_email s = Some e" and "e \<noteq> []" and "db_online w"
  shows "(\<exists>r \<in> set (usuarios (handleCheckoutSessionCompleted env now s w)). email r = e) \<and>
         (\<forall>r \<in> set (usuarios (handleCheckoutSessionCompleted env now s w)).
            email r = e \<longrightarrow> plano r = Some ''desconhecido'')"
proof -
  let ?us' = "usuarios (handleCheckoutSessionCompleted env now s w)"
  have plan: "session_planName s = Some ''desconhecido''"
    using assms(1) by (simp add: session_planName_def)
  show ?thesis
  proof (cases "filter (\<lambda>r. email r = e) (usuarios w)")
    case Nil
    then have none: "\<forall>r \<in> set (usuarios w). email r \<noteq> e"
      by (simp add: filter_empty_conv)
    note ins = checkout_create_usuarios [OF assms(2-4) none, of env now]
    have "email (last ?us') = e" "last ?us' \<in> set ?us'"
      by (simp_all add: ins)
    then have ex: "\<exists>r \<in> set ?us'. email r = e" by blast
    have "plano r = Some ''desconhecido''" if "r \<in> set ?us'" "email r = e" for r
    proof -
      from that(1) have "r \<in> set (usuarios w) \<or> r = last ?us'"
        by (simp add: ins) blast
      with that(2) none have "r = last ?us'" by blast
      then show ?thesis by (simp add: ins plan)
    qed
    with ex show ?thesis by blast
  next
    case (Cons r0 rest)
    then have "r0 \<in> set (filter (\<lambda>r. email r = e) (usuarios w))" by simp
    then have r0: "r0 \<in> set (usuarios w)" "email r0 = e" by simp_all
    note upd = checkout_update_usuarios [OF assms(2-4) Cons, of env now]
    let ?f = "\<lambda>r. if email r = e
                   then r\<lparr>stripe_customer_id := customer s, status := Some ''ativo'',
                          plano := session_planName s,
                          api_key := Some (checkout_key r0 w),
                          data_assinatura := Some now,
                          data_renovacao := Some (date_add now 3 MONTH)\<rparr>
                   else r"
    have us': "?us' = map ?f (usuarios w)" by (rule upd)
    have "?f r0 \<in> set ?us'" "email (?f r0) = e"
      using r0 by (simp_all add: us')
    then have ex: "\<exists>r \<in> set ?us'. email r = e" by blast
    have "plano r = Some ''desconhecido''" if "r \<in> set ?us'" "email r = e" for r
    proof -
      from that(1) obtain r1 where r1: "r1 \<in> set (usuarios w)" "r = ?f r1"
        unfolding us' by auto
      show ?thesis
      proof (cases "email r1 = e")
        case True
        with r1(2) show ?thesis by (simp add: plan)
      next
        case False
        with r1(2) that(2) show ?thesis by simp
      qed
    qed
    with ex show ?thesis by blast
  qed
qed


theorem checkout_without_metadata_plan_witness:
  "metadata (sample_session\<lparr>metadata := None\<rparr>) = None \<and>
   session_email (sample_session\<lparr>metadata := None\<rparr>) = Some ''a@x.com'' \<and>
   db_online empty_world \<and> db_online sample_world \<and>
   map plano (usuarios (handleCheckoutSessionCompleted sample_env sample_now
      (sample_session\<lparr>metadata := None\<rparr>) empty_world)) = [Some ''desconhecido''] \<and>
   map plano (usuarios (handleCheckoutSessionCompleted sample_env sample_now
      (sample_session\<lparr>metadata := None\<rparr>) sample_world)) = [Some ''desconhecido'']"
proof -
  let ?s0 = "sample_session\<lparr>metadata := None\<rparr>"
  have h: "metadata ?s0 = None" "session_email ?s0 = Some ''a@x.com''" "''a@x.com'' \<noteq> []"
    "db_online empty_world" "db_online sample_world"
    by (simp_all add: sample_session_def session_email_def empty_world_def sample_world_def)
  have none: "\<forall>r \<in> set (usuarios empty_world). email r \<noteq> ''a@x.com''"
    by (simp add: empty_world_def)
  have flt: "filter (\<lambda>r. email r = ''a@x.com'') (usuarios sample_world) = sample_row # []"
    by (simp add: sample_world_def empty_world_def sample_row_def)
  have shape:
    "map email (usuarios (handleCheckoutSessionCompleted sample_env sample_now ?s0 empty_world)) =
       [''a@x.com'']"
    "map email (usuarios (handleCheckoutSessionCompleted sample_env sample_now ?s0 sample_world)) =
       [''a@x.com'']"
    unfolding checkout_create_usuarios [OF h(2,3,4) none]
      checkout_update_usuarios [OF h(2,3,5) flt]
    by (simp_all add: empty_world_def sample_world_def sample_row_def)
  have one: "map plano us = [Some ''desconhecido'']"
    if "map email us = [''a@x.com'']"
      "\<forall>r \<in> set us. email r = ''a@x.com'' \<longrightarrow> plano r = Some ''desconhecido''"
    for us :: "usuario list"
    using that by (cases us) auto
  show ?thesis
    using h one [OF shape(1)] one [OF shape(2)]
      checkout_without_metadata_plan [OF h(1-4), of sample_env sample_now]
      checkout_without_metadata_plan [OF h(1-3,5), of sample_env sample_now]
    by blast
qed

subsection \<open>Access tokens\<close>

lemma checkout_key_held:
  assumes "token_held e k w" "k \<noteq> []"
    and "filter (\<lambda>r. email r = e) (usuarios w) = r0 # rest"
  shows "checkout_key r0 w = k"
proof -
  have "r0 \<in> set (filter (\<lambda>r. email r = e) (usuarios w))"
    using assms(3) by simp
  then have r0: "r0 \<in> set (usuarios w)" "email r0 = e" by simp_all
  then have "(e, api_key r0) \<in> set (tokens w)"
    by (force simp: tokens_def)
  with assms(1) have "api_key r0 = Some k"
    unfolding token_held_def by (meson eq_key_imp_eq_value)
  with assms(2) show ?thesis by (simp add: checkout_key_def)
qed

lemma checkout_token_held:
  assumes "token_held e k w" "k \<noteq> []"
  shows "token_held e k (handleCheckoutSessionCompleted env now s w)"
proof (cases rule: checkout_cases [where s = s and w = w])
  case no_email
  then show ?thesis
    using assms(1) by (simp add: checkout_no_email token_held_def tokens_def console_write_def)
next
  case offline
  then show ?thesis
    using assms(1) by (simp add: checkout_offline token_held_def tokens_def)
next
  case (created e')
  have "e' \<notin> email ` set (usuarios w)"
    using created(4) by auto
  then show ?thesis
    using assms(1) checkout_create_usuarios [OF created, of env now]
    by (simp add: token_held_def tokens_def comp_def)
next
  case (updated e' r0 rest)
  note upd = checkout_update_usuarios [OF updated, of env now]
  have fst_eq: "map fst (tokens (handleCheckoutSessionCompleted env now s w)) = map fst (tokens w)"
    by (simp add: upd tokens_def comp_def)
  obtain r where r: "r \<in> set (usuarios w)" "email r = e" "api_key r = Some k"
    using assms(1) by (auto simp: token_held_def tokens_def)
  have "(e, Some k) \<in> set (tokens (handleCheckoutSessionCompleted env now s w))"
  proof (cases "e' = e")
    case True
    with updated(4) have "checkout_key r0 w = k"
      using checkout_key_held [OF assms] by simp
    with r True show ?thesis
      by (force simp: upd tokens_def image_iff)
  next
    case False
    with r show ?thesis
      by (force simp: upd tokens_def image_iff)
  qed
  with fst_eq assms(1) show ?thesis by (simp add: token_held_def)
qed

lemma dispatch_token_held:
  assumes "token_held e k w" "k \<noteq> []"
  shows "token_held e k (dispatch_event env now event w)"
proof -
  have "token_held e k (handleInvoicePaid env now (data_object event) w)"
    using assms(1) by (simp add: token_held_def invoice_tokens)
  moreover have "token_held e k (handleSubscriptionCanceled env now (data_object event) w)"
    using assms(1) by (simp add: token_held_def canceled_tokens)
  moreover have "token_held e k (console_write (LogEventoNaoTratado (ev_type event)) w)"
    using assms(1) by (simp add: token_held_def tokens_def console_write_def)
  ultimately show ?thesis
    using checkout_token_held [OF assms] by (simp add: dispatch_event_def)
qed

lemma run_events_token_held:
  "token_held e k w \<Longrightarrow> k \<noteq> [] \<Longrightarrow> token_held e k (run_events env evs w)"
  by (induction env evs w rule: run_events.induct) (simp_all add: dispatch_token_held)

lemma map_fst_tokens: "map fst (tokens w) = map email (usuarios w)"
  by (simp add: tokens_def comp_def)

lemma checkout_distinct:
  fixes s :: stripe_object and w :: world
  assumes "distinct (map email (usuarios w))"
  shows "distinct (map email (usuarios (handleCheckoutSessionCompleted env now s w)))"
proof (cases rule: checkout_cases [where s = s and w = w])
  case no_email
  then show ?thesis using assms by (simp add: checkout_no_email console_write_def)
next
  case offline
  then show ?thesis using assms by (simp add: checkout_offline)
next
  case (created e)
  have "e \<notin> email ` set (usuarios w)" using created(4) by auto
  then show ?thesis
    using assms by (simp add: checkout_create_usuarios [OF created])
next
  case (updated e r0 rest)
  have "map email (usuarios (handleCheckoutSessionCompleted env now s w)) =
        map email (usuarios w)"
    by (simp add: checkout_update_usuarios [OF updated] comp_def)
  then show ?thesis using assms by simp
qed

lemma dispatch_distinct:
  assumes "distinct (map email (usuarios w))"
  shows "distinct (map email (usuarios (dispatch_event env now event w)))"
proof -
  have "map email (usuarios (handleInvoicePaid env now (data_object event) w)) =
        map email (usuarios w)"
    using invoice_tokens [of env now "data_object event" w]
    by (simp add: map_fst_tokens [symmetric])
  moreover
  have "map email (usuarios (handleSubscriptionCanceled env now (data_object event) w)) =
        map email (usuarios w)"
    using canceled_tokens [of env now "data_object event" w]
    by (simp add: map_fst_tokens [symmetric])
  ultimately show ?thesis
    using assms checkout_distinct [OF assms, of env now "data_object event"]
    by (simp add: dispatch_event_def console_write_def)
qed

lemma run_events_distinct:
  "distinct (map email (usuarios w)) \<Longrightarrow> distinct (map email (usuarios (run_events env evs w)))"
  by (induction env evs w rule: run_events.induct) (simp_all add: dispatch_distinct)

lemma run_events_append:
  "run_events env (xs @ ys) w = run_events env ys (run_events env xs w)"
  by (induction env xs w rule: run_events.induct) simp_all

text \<open>
  Claim C3. The access token of a record is generated at most once. Starting from any table
  with one row per email, once some record holds a non-empty access token after a sequence
  of verified events, then after any further verified events (CheckoutCompleted,
  InvoicePaid or any other kind, at any times) the email still has a record and every
  record of that email holds the same token. Tokens written by the handlers are never
  empty (\<open>generateApiKey_length\<close>).
\<close>

theorem access_token_never_replaced:
  assumes "distinct (map email (usuarios w))"
    and "r \<in> set (usuarios (run_events env earlier w))"
    and "api_key r = Some k" and "k \<noteq> []"
  shows "(\<exists>r' \<in> set (usuarios (run_events env (earlier @ later) w)). email r' = email r) \<and>
         (\<forall>r' \<in> set (usuarios (run_events env (earlier @ later) w)).
            email r' = email r \<longrightarrow> api_key r' = Some k)"
proof -
  let ?w1 = "run_events env earlier w"
  let ?w2 = "run_events env (earlier @ later) w"
  have "distinct (map email (usuarios ?w1))"
    using assms(1) by (rule run_events_distinct)
  then have "token_held (email r) k ?w1"
    using assms(2,3) by (force simp: token_held_def tokens_def comp_def)
  then have "token_held (email r) k (run_events env later ?w1)"
    using assms(4) by (rule run_events_token_held)
  then have held: "token_held (email r) k ?w2"
    by (simp add: run_events_append)
  then have "\<exists>r' \<in> set (usuarios ?w2). email r' = email r"
    by (auto simp: token_held_def tokens_def)
  moreover have "api_key r' = Some k"
    if "r' \<in> set (usuarios ?w2)" "email r' = email r" for r'
  proof -
    have "(email r', api_key r') \<in> set (tokens ?w2)"
      using that(1) by (simp add: tokens_def)
    then have "(email r, api_key r') \<in> set (tokens ?w2)"
      using that(2) by simp
    with held show ?thesis
      unfolding token_held_def by (meson eq_key_imp_eq_value)
  qed
  ultimately show ?thesis by blast
qed

lemma sample_first_checkout:
  "usuarios (run_events sample_env [(sample_now, sample_event)] empty_world) = [sample_key_row]"
proof -
  have h: "session_email sample_session = Some ''a@x.com''" "''a@x.com'' \<noteq> []"
    "db_online empty_world" "\<forall>r \<in> set (usuarios empty_world). email r \<noteq> ''a@x.com''"
    by (simp_all add: sample_session_def session_email_def empty_world_def)
  have "run_events sample_env [(sample_now, sample_event)] empty_world =
        handleCheckoutSessionCompleted sample_env sample_now sample_session empty_world"
    by (simp add: dispatch_event_def sample_event_def)
  moreover have "date_add sample_now 3 MONTH =
      \<lparr> ts_year = 2025, ts_month = 2, ts_day = 28, ts_time = 43200 \<rparr>"
    by (simp add: sample_now_def date_defs)
  moreover have "session_planName sample_session = Some ''Plano Anual''"
    "customer sample_session = Some ''cus_1''"
    "usuarios empty_world = []" "next_id empty_world = 1"
    by (simp_all add: session_planName_def sample_session_def empty_world_def)
  ultimately show ?thesis
    unfolding sample_key_row_def
    by (simp add: checkout_create_usuarios [OF h] sample_key)
qed

theorem access_token_never_replaced_witness:
  "distinct (map email (usuarios empty_world)) \<and>
   usuarios (run_events sample_env [(sample_now, sample_event)] empty_world) = [sample_key_row] \<and>
   api_key sample_key_row = Some ''AAECAwQFBgcICQoLDA0ODxAREhMUFRYXGBkaGxwdHh8'' \<and>
   tokens (run_events sample_env
      ([(sample_now, sample_event)] @
       [(sample_later, sample_event),
        (sample_later, \<lparr> ev_type = ''invoice.paid'', data_object = sample_invoice \<rparr>),
        (sample_later, \<lparr> ev_type = ''customer.subscription.deleted'',
                         data_object = sample_invoice \<rparr>),
        (sample_later, sample_event)])
      empty_world) = [(''a@x.com'', Some ''AAECAwQFBgcICQoLDA0ODxAREhMUFRYXGBkaGxwdHh8'')]"
proof -
  let ?k = "''AAECAwQFBgcICQoLDA0ODxAREhMUFRYXGBkaGxwdHh8''"
  let ?later = "[(sample_later, sample_event),
        (sample_later, \<lparr> ev_type = ''invoice.paid'', data_object = sample_invoice \<rparr>),
        (sample_later, \<lparr> ev_type = ''customer.subscription.deleted'',
                         data_object = sample_invoice \<rparr>),
        (sample_later, sample_event)]"
  let ?w2 = "run_events sample_env ([(sample_now, sample_event)] @ ?later) empty_world"
  have h1: "distinct (map email (usuarios empty_world))"
    by (simp add: empty_world_def)
  have h2: "sample_key_row \<in> set (usuarios (run_events sample_env [(sample_now, sample_event)]
        empty_world))"
    unfolding sample_first_checkout by simp
  have h3: "api_key sample_key_row = Some ?k" "?k \<noteq> []"
    by (simp_all add: sample_key_row_def)
  note h = h1 h2 h3
  have shape: "map email (usuarios ?w2) = [''a@x.com'']"
    by (simp add: sample_defs sample_invoice_def handler_defs split_beta
        generateApiKey_nonempty)
  have one: "map (\<lambda>r. (email r, api_key r)) us = [(''a@x.com'', Some ?k)]"
    if "map email us = [''a@x.com'']"
      "\<forall>r \<in> set us. email r = ''a@x.com'' \<longrightarrow> api_key r = Some ?k"
    for us :: "usuario list"
    using that by (cases us) auto
  have "email sample_key_row = ''a@x.com''" by (simp add: sample_key_row_def)
  then have "tokens ?w2 = [(''a@x.com'', Some ?k)]"
    unfolding tokens_def
    using access_token_never_replaced [OF h, of ?later]
    by (intro one [OF shape]) simp
  with h sample_first_checkout show ?thesis by simp
qed

subsection \<open>Replayed events\<close>

lemma checkout_key_nonempty: "checkout_key r0 w \<noteq> []"
  by (simp add: checkout_key_def generateApiKey_nonempty split: option.splits)

lemma checkout_idempotent:
  "map strip_time (usuarios (handleCheckoutSessionCompleted env now2 s
      (handleCheckoutSessionCompleted env now1 s w))) =
   map strip_time (usuarios (handleCheckoutSessionCompleted env now1 s w))"
proof -
  let ?w1 = "handleCheckoutSessionCompleted env now1 s w"
  show ?thesis
  proof (cases rule: checkout_cases [where s = s and w = w])
  case no_email
  then show ?thesis by (simp add: checkout_no_email console_write_def)
next
  case offline
  then have "\<not> db_online ?w1" by simp
  then show ?thesis by (simp add: checkout_offline)
next
  case (created e)
  note ins = checkout_create_usuarios [OF created, of env now1]
  let ?new = "last (usuarios ?w1)"
  have flt: "filter (\<lambda>r. email r = e) (usuarios ?w1) = ?new # []"
    using created(4) by (simp add: ins filter_empty_conv)
  have on: "db_online ?w1" using created(3) by simp
  have key: "checkout_key ?new ?w1 = fst (generateApiKey w)"
    by (simp add: ins checkout_key_def generateApiKey_nonempty)
  show ?thesis
    unfolding checkout_update_usuarios [OF created(1,2) on flt, of env now2] key
    using created(4) by (simp add: ins strip_time_def)
next
  case (updated e r0 rest)
  note upd = checkout_update_usuarios [OF updated, of env now1]
  let ?f = "\<lambda>r. if email r = e
                   then r\<lparr>stripe_customer_id := customer s, status := Some ''ativo'',
                          plano := session_planName s,
                          api_key := Some (checkout_key r0 w),
                          data_assinatura := Some now1,
                          data_renovacao := Some (date_add now1 3 MONTH)\<rparr>
                   else r"
  have "filter (\<lambda>r. email r = e) (map ?f (usuarios w)) =
        map ?f (filter (\<lambda>r. email r = e) (usuarios w))"
    by (induction "usuarios w") (simp_all add: filter_map comp_def)
  then have flt: "filter (\<lambda>r. email r = e) (usuarios ?w1) = ?f r0 # map ?f rest"
    using updated(4) by (simp add: upd)
  have on: "db_online ?w1" using updated(3) by simp
  have "r0 \<in> set (filter (\<lambda>r. email r = e) (usuarios w))"
    using updated(4) by simp
  then have "email r0 = e" by simp
  then have key: "checkout_key (?f r0) ?w1 = checkout_key r0 w"
    using checkout_key_nonempty [of r0 w] by (simp add: checkout_key_def)
  show ?thesis
    unfolding checkout_update_usuarios [OF updated(1,2) on flt, of env now2] key
    by (simp add: upd strip_time_def)
  qed
qed

lemma invoice_idempotent:
  "map strip_time (usuarios (handleInvoicePaid env now2 invoice
      (handleInvoicePaid env now1 invoice w))) =
   map strip_time (usuarios (handleInvoicePaid env now1 invoice w))"
  by (simp add: handleInvoicePaid_def query_update_invoice_def
      console_write_def split_beta strip_time_def
      split: option.splits sum.splits list.splits)

lemma canceled_idempotent:
  "map strip_time (usuarios (handleSubscriptionCanceled env now2 sub
      (handleSubscriptionCanceled env now1 sub w))) =
   map strip_time (usuarios (handleSubscriptionCanceled env now1 sub w))"
  by (simp add: handleSubscriptionCanceled_def query_update_canceled_def
      console_write_def strip_time_def
      split: option.splits sum.splits list.splits)

text \<open>
  Claim C4. Every reconciliation transition is idempotent up to the time-derived columns:
  for every verified event, delivering it a second time (at any later time) leaves the
  table as the first delivery left it, once \<^verbatim>\<open>data_assinatura\<close>,
  \<^verbatim>\<open>data_renovacao\<close> and \<^verbatim>\<open>data_modificacao\<close> are disregarded. This holds for
  every event kind, CheckoutCompleted included.
\<close>

theorem reconciliation_idempotent:
  "map strip_time (usuarios (dispatch_event env now2 event (dispatch_event env now1 event w))) =
   map strip_time (usuarios (dispatch_event env now1 event w))"
  by (simp add: dispatch_event_def checkout_idempotent invoice_idempotent
      canceled_idempotent console_write_def)

theorem reconciliation_idempotent_witness:
  "map strip_time (usuarios (dispatch_event sample_env sample_later sample_event
      (dispatch_event sample_env sample_now sample_event empty_world))) =
     [strip_time sample_key_row] \<and>
   map strip_time (usuarios (dispatch_event sample_env sample_now sample_event empty_world)) =
     [strip_time sample_key_row]"
proof -
  have "usuarios (dispatch_event sample_env sample_now sample_event empty_world) =
      [sample_key_row]"
    using sample_first_checkout by simp
  then show ?thesis
    using reconciliation_idempotent [of sample_env sample_later sample_event sample_now
        empty_world]
    by simp
qed

subsection \<open>Paid invoices\<close>

text \<open>
  Claim C2, as the code has it. The plan resolution of \<^verbatim>\<open>handleInvoicePaid\<close> follows this
  table: interval \<^verbatim>\<open>year\<close> with any count gives the plan "Plano Anual" with renewal one
  year after the time of the write; interval \<^verbatim>\<open>month\<close> with count 3 gives
  "Plano Trimestral" with renewal three months after; every other interval and count
  (monthly included) gives "Plano Personalizado" with renewal one month after, whatever
  the count.
\<close>

theorem invoice_plan_table:
  "(interval p = ''year'' \<longrightarrow>
      fst (invoice_plan p) = ''Plano Anual'' \<and>
      eval_clause (snd (invoice_plan p)) t = date_add t 1 YEAR) \<and>
   (interval p = ''month'' \<and> interval_count p = 3 \<longrightarrow>
      fst (invoice_plan p) = ''Plano Trimestral'' \<and>
      eval_clause (snd (invoice_plan p)) t = date_add t 3 MONTH) \<and>
   (interval p \<noteq> ''year'' \<and> \<not> (interval p = ''month'' \<and> interval_count p = 3) \<longrightarrow>
      fst (invoice_plan p) = ''Plano Personalizado'' \<and>
      eval_clause (snd (invoice_plan p)) t = date_add t 1 MONTH)"
  by (simp add: invoice_plan_def)

theorem invoice_plan_table_witness:
  "fst (invoice_plan \<lparr> interval = ''year'', interval_count = 1 \<rparr>) = ''Plano Anual'' \<and>
   eval_clause (snd (invoice_plan \<lparr> interval = ''year'', interval_count = 1 \<rparr>)) sample_now =
     \<lparr> ts_year = 2025, ts_month = 11, ts_day = 30, ts_time = 43200 \<rparr> \<and>
   fst (invoice_plan \<lparr> interval = ''year'', interval_count = 2 \<rparr>) = ''Plano Anual'' \<and>
   eval_clause (snd (invoice_plan \<lparr> interval = ''year'', interval_count = 2 \<rparr>)) sample_now =
     \<lparr> ts_year = 2025, ts_month = 11, ts_day = 30, ts_time = 43200 \<rparr> \<and>
   fst (invoice_plan \<lparr> interval = ''month'', interval_count = 3 \<rparr>) = ''Plano Trimestral'' \<and>
   eval_clause (snd (invoice_plan \<lparr> interval = ''month'', interval_count = 3 \<rparr>)) sample_now =
     \<lparr> ts_year = 2025, ts_month = 2, ts_day = 28, ts_time = 43200 \<rparr> \<and>
   fst (invoice_plan \<lparr> interval = ''month'', interval_count = 1 \<rparr>) = ''Plano Personalizado'' \<and>
   eval_clause (snd (invoice_plan \<lparr> interval = ''month'', interval_count = 1 \<rparr>)) sample_now =
     \<lparr> ts_year = 2024, ts_month = 12, ts_day = 30, ts_time = 43200 \<rparr> \<and>
   fst (invoice_plan \<lparr> interval = ''week'', interval_count = 2 \<rparr>) = ''Plano Personalizado'' \<and>
   eval_clause (snd (invoice_plan \<lparr> interval = ''week'', interval_count = 2 \<rparr>)) sample_now =
     \<lparr> ts_year = 2024, ts_month = 12, ts_day = 30, ts_time = 43200 \<rparr>"
proof -
  have d: "date_add sample_now 1 YEAR =
      \<lparr> ts_year = 2025, ts_month = 11, ts_day = 30, ts_time = 43200 \<rparr>"
    "date_add sample_now 3 MONTH =
      \<lparr> ts_year = 2025, ts_month = 2, ts_day = 28, ts_time = 43200 \<rparr>"
    "date_add sample_now 1 MONTH =
      \<lparr> ts_year = 2024, ts_month = 12, ts_day = 30, ts_time = 43200 \<rparr>"
    by (simp_all add: sample_now_def date_defs)
  have "fst (invoice_plan \<lparr> interval = ''year'', interval_count = 1 \<rparr>) = ''Plano Anual'' \<and>
      eval_clause (snd (invoice_plan \<lparr> interval = ''year'', interval_count = 1 \<rparr>)) sample_now =
      date_add sample_now 1 YEAR"
    using invoice_plan_table [of "\<lparr> interval = ''year'', interval_count = 1 \<rparr>" sample_now]
    by simp
  moreover
  have "fst (invoice_plan \<lparr> interval = ''year'', interval_count = 2 \<rparr>) = ''Plano Anual'' \<and>
      eval_clause (snd (invoice_plan \<lparr> interval = ''year'', interval_count = 2 \<rparr>)) sample_now =
      date_add sample_now 1 YEAR"
    using invoice_plan_table [of "\<lparr> interval = ''year'', interval_count = 2 \<rparr>" sample_now]
    by simp
  moreover
  have "fst (invoice_plan \<lparr> interval = ''month'', interval_count = 3 \<rparr>) = ''Plano Trimestral'' \<and>
      eval_clause (snd (invoice_plan \<lparr> interval = ''month'', interval_count = 3 \<rparr>)) sample_now =
      date_add sample_now 3 MONTH"
    using invoice_plan_table [of "\<lparr> interval = ''month'', interval_count = 3 \<rparr>" sample_now]
    by simp
  moreover
  have "fst (invoice_plan \<lparr> interval = ''month'', interval_count = 1 \<rparr>) = ''Plano Personalizado'' \<and>
      eval_clause (snd (invoice_plan \<lparr> interval = ''month'', interval_count = 1 \<rparr>)) sample_now =
      date_add sample_now 1 MONTH"
    using invoice_plan_table [of "\<lparr> interval = ''month'', interval_count = 1 \<rparr>" sample_now]
    by simp
  moreover
  have "fst (invoice_plan \<lparr> interval = ''week'', interval_count = 2 \<rparr>) = ''Plano Personalizado'' \<and>
      eval_clause (snd (invoice_plan \<lparr> interval = ''week'', interval_count = 2 \<rparr>)) sample_now =
      date_add sample_now 1 MONTH"
    using invoice_plan_table [of "\<lparr> interval = ''week'', interval_count = 2 \<rparr>" sample_now]
    by simp
  ultimately show ?thesis unfolding d by blast
qed

text \<open>
  The claim as written fails for a plan billed every six months: the code renews one month
  after the write, not six.
\<close>

theorem invoice_plan_custom_interval_counterexample:
  "fst (invoice_plan \<lparr> interval = ''month'', interval_count = 6 \<rparr>) = ''Plano Personalizado'' \<and>
   eval_clause (snd (invoice_plan \<lparr> interval = ''month'', interval_count = 6 \<rparr>)) sample_now =
     \<lparr> ts_year = 2024, ts_month = 12, ts_day = 30, ts_time = 43200 \<rparr> \<and>
   date_add sample_now 6 MONTH =
     \<lparr> ts_year = 2025, ts_month = 5, ts_day = 30, ts_time = 43200 \<rparr> \<and>
   eval_clause (snd (invoice_plan \<lparr> interval = ''month'', interval_count = 6 \<rparr>)) sample_now \<noteq>
     date_add sample_now 6 MONTH"
  by (simp add: invoice_plan_def sample_now_def date_defs)

text \<open>
  Claim C5, as the code has it. For an InvoicePaid event: when the subscription id or the
  customer id is missing the handler does nothing. Otherwise, when both lookups at the
  provider succeed, the subscription has an item and the database is reachable, every
  record whose email is the customer's email is set to status \<^verbatim>\<open>ativo\<close>, with the
  resolved plan name, \<^verbatim>\<open>data_renovacao\<close> given by the resolved clause at the time of the
  write and \<^verbatim>\<open>data_modificacao\<close> = now; every other record is left as it is and no
  record is created. When no record has that email the table is unchanged, and the handler
  writes its usual line to the console, not an error.
\<close>

theorem invoice_paid_effect:
  fixes invoice :: stripe_object and w :: world
  shows
    "(falsy (subscription invoice) \<or> falsy (customer invoice) \<longrightarrow>
        handleInvoicePaid env now invoice w = w) \<and>
     (subscription invoice = Some sid \<and> sid \<noteq> [] \<and> customer invoice = Some cid \<and> cid \<noteq> [] \<and>
      subscriptions_retrieve env sid = Inr sub \<and> customers_retrieve env cid = Inr cus \<and>
      items_data sub = plan # rest \<and> db_online w \<longrightarrow>
        length (usuarios (handleInvoicePaid env now invoice w)) = length (usuarios w) \<and>
        (\<forall>i < length (usuarios w).
           usuarios (handleInvoicePaid env now invoice w) ! i =
           (if Some (email (usuarios w ! i)) = cus_email cus
            then (usuarios w ! i)
                   \<lparr>status := Some ''ativo'', plano := Some (fst (invoice_plan plan)),
                    data_renovacao := Some (eval_clause (snd (invoice_plan plan)) now),
                    data_modificacao := Some now\<rparr>
            else usuarios w ! i)) \<and>
        console (handleInvoicePaid env now invoice w) =
          console w @ [LogInvoiceAtualizado (cus_email cus)] \<and>
        ((\<forall>r \<in> set (usuarios w). Some (email r) \<noteq> cus_email cus) \<longrightarrow>
           usuarios (handleInvoicePaid env now invoice w) = usuarios w))"
proof (intro conjI impI)
  assume "falsy (subscription invoice) \<or> falsy (customer invoice)"
  then show "handleInvoicePaid env now invoice w = w" by (rule invoice_missing_ids)
next
  assume a: "subscription invoice = Some sid \<and> sid \<noteq> [] \<and> customer invoice = Some cid \<and>
      cid \<noteq> [] \<and> subscriptions_retrieve env sid = Inr sub \<and>
      customers_retrieve env cid = Inr cus \<and> items_data sub = plan # rest \<and> db_online w"
  then have f: "subscription invoice = Some sid" "sid \<noteq> []" "customer invoice = Some cid"
    "cid \<noteq> []" "subscriptions_retrieve env sid = Inr sub"
    "customers_retrieve env cid = Inr cus" "items_data sub = plan # rest" "db_online w"
    by simp_all
  have upd: "handleInvoicePaid env now invoice w =
         w\<lparr>usuarios := map (\<lambda>r.
              if Some (email r) = cus_email cus
              then r\<lparr>status := Some ''ativo'', plano := Some (fst (invoice_plan plan)),
                     data_renovacao := Some (eval_clause (snd (invoice_plan plan)) now),
                     data_modificacao := Some now\<rparr>
              else r) (usuarios w),
           console := console w @ [LogInvoiceAtualizado (cus_email cus)]\<rparr>"
    by (rule invoice_update [OF f])
  show "length (usuarios (handleInvoicePaid env now invoice w)) = length (usuarios w)"
    by (simp add: upd)
  show "\<forall>i < length (usuarios w).
           usuarios (handleInvoicePaid env now invoice w) ! i =
           (if Some (email (usuarios w ! i)) = cus_email cus
            then (usuarios w ! i)
                   \<lparr>status := Some ''ativo'', plano := Some (fst (invoice_plan plan)),
                    data_renovacao := Some (eval_clause (snd (invoice_plan plan)) now),
                    data_modificacao := Some now\<rparr>
            else usuarios w ! i)"
    by (simp add: upd)
  show "console (handleInvoicePaid env now invoice w) =
          console w @ [LogInvoiceAtualizado (cus_email cus)]"
    by (simp add: upd)
  assume "\<forall>r \<in> set (usuarios w). Some (email r) \<noteq> cus_email cus"
  then have "map (\<lambda>r.
              if Some (email r) = cus_email cus
              then r\<lparr>status := Some ''ativo'', plano := Some (fst (invoice_plan plan)),
                     data_renovacao := Some (eval_clause (snd (invoice_plan plan)) now),
                     data_modificacao := Some now\<rparr>
              else r) (usuarios w) = usuarios w"
    by (simp add: map_idI)
  then show "usuarios (handleInvoicePaid env now invoice w) = usuarios w"
    by (simp add: upd)
qed


theorem invoice_paid_effect_witness:
  "handleInvoicePaid sample_env sample_later (sample_invoice\<lparr>subscription := None\<rparr>) sample_world =
     sample_world \<and>
   usuarios (handleInvoicePaid sample_env sample_later sample_invoice sample_world) =
     [sample_row\<lparr>status := Some ''ativo'', plano := Some ''Plano Anual'',
        data_renovacao := Some \<lparr> ts_year = 2026, ts_month = 1, ts_day = 31, ts_time = 600 \<rparr>,
        data_modificacao := Some sample_later\<rparr>] \<and>
   usuarios (handleInvoicePaid sample_env sample_later sample_invoice empty_world) = [] \<and>
   console (handleInvoicePaid sample_env sample_later sample_invoice empty_world) =
     [LogInvoiceAtualizado (Some ''a@x.com'')]"
proof -
  let ?sub = "\<lparr> items_data = [\<lparr> interval = ''year'', interval_count = 1 \<rparr>] \<rparr>"
  let ?cus = "\<lparr> cus_id = ''cus_1'', cus_email = Some ''a@x.com'' \<rparr>"
  let ?plan = "\<lparr> interval = ''year'', interval_count = 1 \<rparr>"
  have h1: "falsy (subscription (sample_invoice\<lparr>subscription := None\<rparr>)) \<or>
      falsy (customer (sample_invoice\<lparr>subscription := None\<rparr>))"
    by (simp add: falsy_def)
  have h2: "subscription sample_invoice = Some ''sub_1'' \<and> ''sub_1'' \<noteq> [] \<and>
      customer sample_invoice = Some ''cus_1'' \<and> ''cus_1'' \<noteq> [] \<and>
      subscriptions_retrieve sample_env ''sub_1'' = Inr ?sub \<and>
      customers_retrieve sample_env ''cus_1'' = Inr ?cus \<and>
      items_data ?sub = ?plan # [] \<and> db_online sample_world \<and> db_online empty_world"
    by (simp add: sample_invoice_def sample_env_def sample_world_def empty_world_def)
  have d: "eval_clause (snd (invoice_plan ?plan)) sample_later =
      \<lparr> ts_year = 2026, ts_month = 1, ts_day = 31, ts_time = 600 \<rparr>"
    "fst (invoice_plan ?plan) = ''Plano Anual''"
    by (simp_all add: invoice_plan_def sample_later_def date_defs)
  have c1: "handleInvoicePaid sample_env sample_later (sample_invoice\<lparr>subscription := None\<rparr>)
      sample_world = sample_world"
    using invoice_paid_effect [where invoice = "sample_invoice\<lparr>subscription := None\<rparr>"
        and env = sample_env and now = sample_later and w = sample_world] h1
    by blast
  have len: "length (usuarios sample_world) = 1" "usuarios sample_world ! 0 = sample_row"
    "email sample_row = ''a@x.com''"
    by (simp_all add: sample_world_def empty_world_def sample_row_def)
  have "length (usuarios (handleInvoicePaid sample_env sample_later sample_invoice sample_world)) = 1 \<and>
      usuarios (handleInvoicePaid sample_env sample_later sample_invoice sample_world) ! 0 =
      sample_row\<lparr>status := Some ''ativo'', plano := Some ''Plano Anual'',
        data_renovacao := Some \<lparr> ts_year = 2026, ts_month = 1, ts_day = 31, ts_time = 600 \<rparr>,
        data_modificacao := Some sample_later\<rparr>"
    using invoice_paid_effect [where invoice = sample_invoice and sid = "''sub_1''"
        and cid = "''cus_1''" and env = sample_env and sub = ?sub and cus = ?cus
        and plan = ?plan and rest = "[]" and w = sample_world and now = sample_later] h2
    by (simp add: d len)
  then have c2: "usuarios (handleInvoicePaid sample_env sample_later sample_invoice sample_world) =
      [sample_row\<lparr>status := Some ''ativo'', plano := Some ''Plano Anual'',
        data_renovacao := Some \<lparr> ts_year = 2026, ts_month = 1, ts_day = 31, ts_time = 600 \<rparr>,
        data_modificacao := Some sample_later\<rparr>]"
    by (cases "usuarios (handleInvoicePaid sample_env sample_later sample_invoice sample_world)")
      auto
  have emp: "usuarios empty_world = []" "console empty_world = []"
    by (simp_all add: empty_world_def)
  have c3: "usuarios (handleInvoicePaid sample_env sample_later sample_invoice empty_world) = [] \<and>
      console (handleInvoicePaid sample_env sample_later sample_invoice empty_world) =
      [LogInvoiceAtualizado (Some ''a@x.com'')]"
    using invoice_paid_effect [where invoice = sample_invoice and sid = "''sub_1''"
        and cid = "''cus_1''" and env = sample_env and sub = ?sub and cus = ?cus
        and plan = ?plan and rest = "[]" and w = empty_world and now = sample_later] h2
    by (simp add: emp)
  show ?thesis using c1 c2 c3 by blast
qed

text \<open>
  A paid invoice for a customer whose email has no record is not reported as an error: the
  only line on the console is the one written after a successful update.
\<close>

theorem invoice_paid_without_record_counterexample:
  "usuarios empty_world = [] \<and>
   customers_retrieve sample_env ''cus_1'' =
     Inr \<lparr> cus_id = ''cus_1'', cus_email = Some ''a@x.com'' \<rparr> \<and>
   handleInvoicePaid sample_env sample_now sample_invoice empty_world =
     empty_world\<lparr>console := [LogInvoiceAtualizado (Some ''a@x.com'')]\<rparr>"
  by (simp add: handleInvoicePaid_def sample_invoice_def sample_env_def empty_world_def
      query_update_invoice_def console_write_def invoice_plan_def)

subsection \<open>Canceled subscriptions\<close>

lemma canceled_frame:
  "map plano (usuarios (handleSubscriptionCanceled env now sub w)) = map plano (usuarios w) \<and>
   map data_renovacao (usuarios (handleSubscriptionCanceled env now sub w)) =
     map data_renovacao (usuarios w)"
  by (simp add: handleSubscriptionCanceled_def query_update_canceled_def
      console_write_def comp_def
      split: option.splits sum.splits list.splits)

text \<open>
  Claim C6. For a SubscriptionCanceled event: when the customer id is missing the handler
  does nothing. Otherwise, when the customer lookup succeeds and the database is reachable,
  every record whose email is the customer's email gets status \<^verbatim>\<open>inativo\<close> and
  \<^verbatim>\<open>data_modificacao\<close> = now and keeps every other column; all other records stay as
  they are, no record is created, and when no record has that email the table is
  unchanged. In every case the columns \<^verbatim>\<open>plano\<close> and \<^verbatim>\<open>data_renovacao\<close> of all
  records are left as they were.
\<close>

theorem subscription_canceled_effect:
  fixes sub :: stripe_object and w :: world
  shows
    "(falsy (customer sub) \<longrightarrow> handleSubscriptionCanceled env now sub w = w) \<and>
     (customer sub = Some cid \<and> cid \<noteq> [] \<and> customers_retrieve env cid = Inr cus \<and>
      db_online w \<longrightarrow>
        length (usuarios (handleSubscriptionCanceled env now sub w)) = length (usuarios w) \<and>
        (\<forall>i < length (usuarios w).
           usuarios (handleSubscriptionCanceled env now sub w) ! i =
           (if Some (email (usuarios w ! i)) = cus_email cus
            then (usuarios w ! i)\<lparr>status := Some ''inativo'', data_modificacao := Some now\<rparr>
            else usuarios w ! i)) \<and>
        ((\<forall>r \<in> set (usuarios w). Some (email r) \<noteq> cus_email cus) \<longrightarrow>
           usuarios (handleSubscriptionCanceled env now sub w) = usuarios w)) \<and>
     map plano (usuarios (handleSubscriptionCanceled env now sub w)) = map plano (usuarios w) \<and>
     map data_renovacao (usuarios (handleSubscriptionCanceled env now sub w)) =
       map data_renovacao (usuarios w)"
proof (intro conjI impI)
  assume "falsy (customer sub)"
  then show "handleSubscriptionCanceled env now sub w = w" by (rule canceled_missing_id)
next
  assume a: "customer sub = Some cid \<and> cid \<noteq> [] \<and> customers_retrieve env cid = Inr cus \<and>
      db_online w"
  then have f: "customer sub = Some cid" "cid \<noteq> []" "customers_retrieve env cid = Inr cus"
    "db_online w"
    by simp_all
  note upd = canceled_update [OF f, of now]
  show "length (usuarios (handleSubscriptionCanceled env now sub w)) = length (usuarios w)"
    by (simp add: upd)
  show "\<forall>i < length (usuarios w).
           usuarios (handleSubscriptionCanceled env now sub w) ! i =
           (if Some (email (usuarios w ! i)) = cus_email cus
            then (usuarios w ! i)\<lparr>status := Some ''inativo'', data_modificacao := Some now\<rparr>
            else usuarios w ! i)"
    by (simp add: upd)
  assume "\<forall>r \<in> set (usuarios w). Some (email r) \<noteq> cus_email cus"
  then have "map (\<lambda>r.
              if Some (email r) = cus_email cus
              then r\<lparr>status := Some ''inativo'', data_modificacao := Some now\<rparr>
              else r) (usuarios w) = usuarios w"
    by (simp add: map_idI)
  then show "usuarios (handleSubscriptionCanceled env now sub w) = usuarios w"
    by (simp add: upd)
next
  show "map plano (usuarios (handleSubscriptionCanceled env now sub w)) = map plano (usuarios w)"
    using canceled_frame by blast
  show "map data_renovacao (usuarios (handleSubscriptionCanceled env now sub w)) =
       map data_renovacao (usuarios w)"
    using canceled_frame by blast
qed

theorem subscription_canceled_effect_witness:
  "handleSubscriptionCanceled sample_env sample_later (sample_invoice\<lparr>customer := None\<rparr>)
     sample_world = sample_world \<and>
   usuarios (handleSubscriptionCanceled sample_env sample_later sample_invoice
     (sample_world\<lparr>usuarios := [sample_row\<lparr>status := Some ''ativo''\<rparr>]\<rparr>)) =
     [sample_row\<lparr>status := Some ''inativo'', data_modificacao := Some sample_later\<rparr>] \<and>
   usuarios (handleSubscriptionCanceled sample_env sample_later sample_invoice empty_world) = []"
proof -
  let ?cus = "\<lparr> cus_id = ''cus_1'', cus_email = Some ''a@x.com'' \<rparr>"
  let ?w = "sample_world\<lparr>usuarios := [sample_row\<lparr>status := Some ''ativo''\<rparr>]\<rparr>"
  have h1: "falsy (customer (sample_invoice\<lparr>customer := None\<rparr>))"
    by (simp add: falsy_def)
  have h2: "customer sample_invoice = Some ''cus_1'' \<and> ''cus_1'' \<noteq> [] \<and>
      customers_retrieve sample_env ''cus_1'' = Inr ?cus \<and> db_online ?w \<and> db_online empty_world"
    by (simp add: sample_invoice_def sample_env_def sample_world_def empty_world_def)
  have c1: "handleSubscriptionCanceled sample_env sample_later (sample_invoice\<lparr>customer := None\<rparr>)
      sample_world = sample_world"
    using subscription_canceled_effect [where sub = "sample_invoice\<lparr>customer := None\<rparr>"
        and env = sample_env and now = sample_later and w = sample_world] h1
    by blast
  have len: "length (usuarios ?w) = 1" "usuarios ?w ! 0 = sample_row\<lparr>status := Some ''ativo''\<rparr>"
    "email sample_row = ''a@x.com''"
    by (simp_all add: sample_row_def)
  have "length (usuarios (handleSubscriptionCanceled sample_env sample_later sample_invoice ?w)) = 1 \<and>
      usuarios (handleSubscriptionCanceled sample_env sample_later sample_invoice ?w) ! 0 =
      sample_row\<lparr>status := Some ''inativo'', data_modificacao := Some sample_later\<rparr>"
    using subscription_canceled_effect [where sub = sample_invoice and cid = "''cus_1''"
        and env = sample_env and cus = ?cus and w = ?w and now = sample_later] h2
    by (simp add: len)
  then have c2: "usuarios (handleSubscriptionCanceled sample_env sample_later sample_invoice ?w) =
      [sample_row\<lparr>status := Some ''inativo'', data_modificacao := Some sample_later\<rparr>]"
    by (cases "usuarios (handleSubscriptionCanceled sample_env sample_later sample_invoice ?w)")
      auto
  have emp: "usuarios empty_world = []"
    by (simp_all add: empty_world_def)
  have c3: "usuarios (handleSubscriptionCanceled sample_env sample_later sample_invoice
      empty_world) = []"
    using subscription_canceled_effect [where sub = sample_invoice and cid = "''cus_1''"
        and env = sample_env and cus = ?cus and w = empty_world and now = sample_later] h2
    by (simp add: emp)
  show ?thesis using c1 c2 c3 by blast
qed

subsection \<open>The modification date\<close>

text \<open>
  Claim C7 at a completed checkout for an email that already has a record: the update sets
  the status to \<^verbatim>\<open>ativo\<close> but leaves \<^verbatim>\<open>data_modificacao\<close> as it was (here
  \<^verbatim>\<open>NULL\<close>), whereas the updates of \<^verbatim>\<open>handleInvoicePaid\<close> and
  \<^verbatim>\<open>handleSubscriptionCanceled\<close> on the same record set it to the time of the write.
\<close>

theorem checkout_update_leaves_modification_date:
  "usuarios sample_world = [sample_row] \<and> data_modificacao sample_row = None \<and>
   map status (usuarios (handleCheckoutSessionCompleted sample_env sample_later sample_session
      sample_world)) = [Some ''ativo''] \<and>
   map data_modificacao (usuarios (handleCheckoutSessionCompleted sample_env sample_later
      sample_session sample_world)) = [None] \<and>
   map data_modificacao (usuarios (handleInvoicePaid sample_env sample_later sample_invoice
      sample_world)) = [Some sample_later] \<and>
   map data_modificacao (usuarios (handleSubscriptionCanceled sample_env sample_later
      sample_invoice sample_world)) = [Some sample_later]"
  by (simp add: sample_session_def sample_invoice_def sample_world_def empty_world_def
      sample_row_def sample_env_def handler_defs)

subsection \<open>The webhook route\<close>

text \<open>
  Claim C8. For a webhook request: when \<^verbatim>\<open>constructEvent\<close> rejects the payload or its
  signature, the answer is a 400 with the error text, no handler runs and the state changes
  only by the line on the console (the table is untouched); when it accepts, the answer is
  \<^verbatim>\<open>{status: "success"}\<close> with status 200 for every event and every state, whatever the
  handler then does; and an event of a kind other than the three handled ones only adds a
  line to the console.
\<close>

theorem webhook_response:
  fixes req :: webhook_request and w :: world
  shows
    "(constructEvent env (raw_body req) (stripe_signature req) (STRIPE_WEBHOOK_SECRET env) = Inl msg
        \<longrightarrow>
        fst (webhook_stripe env now req w) =
          \<lparr> status_code = 400, res_body = WebhookErrorText msg \<rparr> \<and>
        snd (webhook_stripe env now req w) = w\<lparr>console := console w @ [ErrWebhook msg]\<rparr> \<and>
        usuarios (snd (webhook_stripe env now req w)) = usuarios w) \<and>
     (constructEvent env (raw_body req) (stripe_signature req) (STRIPE_WEBHOOK_SECRET env) = Inr event
        \<longrightarrow>
        fst (webhook_stripe env now req w) = \<lparr> status_code = 200, res_body = StatusSuccess \<rparr> \<and>
        snd (webhook_stripe env now req w) = dispatch_event env now event w) \<and>
     (constructEvent env (raw_body req) (stripe_signature req) (STRIPE_WEBHOOK_SECRET env) = Inr event \<and>
      ev_type event \<noteq> ''checkout.session.completed'' \<and> ev_type event \<noteq> ''invoice.paid'' \<and>
      ev_type event \<noteq> ''customer.subscription.deleted''
        \<longrightarrow>
        snd (webhook_stripe env now req w) =
          w\<lparr>console := console w @ [LogEventoNaoTratado (ev_type event)]\<rparr> \<and>
        usuarios (snd (webhook_stripe env now req w)) = usuarios w)"
  by (simp add: webhook_stripe_def dispatch_event_def console_write_def)

theorem webhook_response_witness:
  "webhook_stripe sample_env sample_later
     \<lparr> raw_body = ''checkout.session.completed'', stripe_signature = Some ''t=1,v1=bad'' \<rparr>
     sample_world =
     (\<lparr> status_code = 400,
        res_body = WebhookErrorText ''No signatures found matching the expected signature'' \<rparr>,
      sample_world\<lparr>console :=
        [ErrWebhook ''No signatures found matching the expected signature'']\<rparr>) \<and>
   fst (webhook_stripe sample_env sample_later
     \<lparr> raw_body = ''checkout.session.completed'', stripe_signature = Some ''t=1,v1=good'' \<rparr>
     (sample_world\<lparr>db_online := False\<rparr>)) = \<lparr> status_code = 200, res_body = StatusSuccess \<rparr> \<and>
   console (snd (webhook_stripe sample_env sample_later
     \<lparr> raw_body = ''checkout.session.completed'', stripe_signature = Some ''t=1,v1=good'' \<rparr>
     (sample_world\<lparr>db_online := False\<rparr>))) = [ErrCheckout DbError] \<and>
   webhook_stripe sample_env sample_later
     \<lparr> raw_body = ''charge.refunded'', stripe_signature = Some ''t=1,v1=good'' \<rparr>
     sample_world =
     (\<lparr> status_code = 200, res_body = StatusSuccess \<rparr>,
      sample_world\<lparr>console := [LogEventoNaoTratado ''charge.refunded'']\<rparr>)"
proof -
  let ?bad = "\<lparr> raw_body = ''checkout.session.completed'',
                stripe_signature = Some ''t=1,v1=bad'' \<rparr>"
  let ?good = "\<lparr> raw_body = ''checkout.session.completed'',
                 stripe_signature = Some ''t=1,v1=good'' \<rparr>"
  let ?other = "\<lparr> raw_body = ''charge.refunded'', stripe_signature = Some ''t=1,v1=good'' \<rparr>"
  let ?off = "sample_world\<lparr>db_online := False\<rparr>"
  have h1: "constructEvent sample_env (raw_body ?bad) (stripe_signature ?bad)
      (STRIPE_WEBHOOK_SECRET sample_env) =
      Inl ''No signatures found matching the expected signature''"
    by (simp add: sample_env_def)
  have h2: "constructEvent sample_env (raw_body ?good) (stripe_signature ?good)
      (STRIPE_WEBHOOK_SECRET sample_env) = Inr sample_event"
    by (simp add: sample_env_def sample_event_def)
  have h3: "constructEvent sample_env (raw_body ?other) (stripe_signature ?other)
      (STRIPE_WEBHOOK_SECRET sample_env) = Inr (sample_event\<lparr>ev_type := ''charge.refunded''\<rparr>)"
    by (simp add: sample_env_def)
  have con: "console sample_world = []"
    by (simp add: sample_world_def empty_world_def)
  have c1: "webhook_stripe sample_env sample_later ?bad sample_world =
     (\<lparr> status_code = 400,
        res_body = WebhookErrorText ''No signatures found matching the expected signature'' \<rparr>,
      sample_world\<lparr>console :=
        [ErrWebhook ''No signatures found matching the expected signature'']\<rparr>)"
    using webhook_response [where env = sample_env and req = ?bad and now = sample_later
        and w = sample_world
        and msg = "''No signatures found matching the expected signature''"] h1
    by (simp add: con prod_eq_iff)
  have c2: "fst (webhook_stripe sample_env sample_later ?good ?off) =
      \<lparr> status_code = 200, res_body = StatusSuccess \<rparr> \<and>
      snd (webhook_stripe sample_env sample_later ?good ?off) =
      dispatch_event sample_env sample_later sample_event ?off"
    using webhook_response [where env = sample_env and req = ?good and now = sample_later
        and w = ?off and event = sample_event] h2
    by blast
  have c2': "console (dispatch_event sample_env sample_later sample_event ?off) =
      [ErrCheckout DbError]"
    by (simp add: sample_defs handler_defs)
  have "ev_type (sample_event\<lparr>ev_type := ''charge.refunded''\<rparr>) = ''charge.refunded''"
    by simp
  then have "fst (webhook_stripe sample_env sample_later ?other sample_world) =
      \<lparr> status_code = 200, res_body = StatusSuccess \<rparr> \<and>
      snd (webhook_stripe sample_env sample_later ?other sample_world) =
      sample_world\<lparr>console := console sample_world @ [LogEventoNaoTratado ''charge.refunded'']\<rparr>"
    using webhook_response [where env = sample_env and req = ?other and now = sample_later
        and w = sample_world and event = "sample_event\<lparr>ev_type := ''charge.refunded''\<rparr>"] h3
    by auto
  then have c3: "webhook_stripe sample_env sample_later ?other sample_world =
     (\<lparr> status_code = 200, res_body = StatusSuccess \<rparr>,
      sample_world\<lparr>console := [LogEventoNaoTratado ''charge.refunded'']\<rparr>)"
    by (simp add: con prod_eq_iff)
  show ?thesis using c1 c2 c2' c3 by simp
qed

subsection \<open>Starting a checkout\<close>

lemma checkout_session_rejected:
  fixes req :: checkout_request and w :: world
  assumes "planId req \<noteq> JStr ''trimestral''" "planId req \<noteq> JStr ''anual''"
  shows "create_checkout_session env req w =
         (\<lparr> status_code = 400,
            res_body = Failure (if js_truthy (planId req) then PlanoInvalido
                                else PlanoNaoEspecificado) \<rparr>, w)"
  using assms by (simp add: create_checkout_session_def catalog_def)

lemma checkout_failed_status [simp]:
  "status_code (fst (checkout_failed msg w)) = 500"
  "res_body (fst (checkout_failed msg w)) = Failure (ErrorMessage msg)"
  by (simp_all add: checkout_failed_def)

text \<open>The route once the plan has been found in the table.\<close>

lemma checkout_session_accepted:
  fixes req :: checkout_request and w :: world
  assumes "catalog (planId req) = Some (amount, interval_v, intervalCount, planName)"
  shows "status_code (fst (create_checkout_session env req w)) \<noteq> 400 \<and>
         (\<forall>sid. res_body (fst (create_checkout_session env req w)) = Session sid \<longrightarrow>
            (\<exists>pid cd. PricesCreate pid amount ''brl'' interval_v intervalCount
                 \<in> set (stripe_calls (snd (create_checkout_session env req w))) \<and>
               SessionsCreate cd \<in> set (stripe_calls (snd (create_checkout_session env req w))) \<and>
               cd_metadata cd = [(''plan'', planName)] \<and> mode cd = ''subscription''))"
proof -
  have t: "js_truthy (planId req)"
    using assms by (auto simp: catalog_def split: if_splits)
  show ?thesis
    using assms t
    by (simp add: create_checkout_session_def Let_def
        split: sum.splits list.splits prod.splits) fastforce
qed


text \<open>
  Claim C9. For a create-checkout-session request: a missing (falsy) plan id is answered
  with a 400 and \<^verbatim>\<open>{success: false, error}\<close>, and so is every plan id other than the
  strings "trimestral" and "anual"; in both cases nothing is created at the provider. The
  two accepted ids are never answered with a 400, and when a session is created for them
  the price created before it is 7500 centavos every 3 months for "trimestral" and 18000
  centavos every year for "anual", with the plan's name in the session's metadata.
\<close>

theorem create_checkout_session_plan_check:
  fixes req :: checkout_request and w :: world
  shows
    "(\<not> js_truthy (planId req) \<longrightarrow>
        create_checkout_session env req w =
          (\<lparr> status_code = 400, res_body = Failure PlanoNaoEspecificado \<rparr>, w)) \<and>
     (js_truthy (planId req) \<and> planId req \<noteq> JStr ''trimestral'' \<and> planId req \<noteq> JStr ''anual''
        \<longrightarrow>
        create_checkout_session env req w =
          (\<lparr> status_code = 400, res_body = Failure PlanoInvalido \<rparr>, w)) \<and>
     (planId req = JStr ''trimestral'' \<or> planId req = JStr ''anual'' \<longrightarrow>
        status_code (fst (create_checkout_session env req w)) \<noteq> 400) \<and>
     (planId req = JStr ''trimestral'' \<and>
      res_body (fst (create_checkout_session env req w)) = Session sid \<longrightarrow>
        (\<exists>pid cd. PricesCreate pid 7500 ''brl'' ''month'' 3
             \<in> set (stripe_calls (snd (create_checkout_session env req w))) \<and>
           SessionsCreate cd \<in> set (stripe_calls (snd (create_checkout_session env req w))) \<and>
           cd_metadata cd = [(''plan'', ''Plano Trimestral'')] \<and> mode cd = ''subscription'')) \<and>
     (planId req = JStr ''anual'' \<and>
      res_body (fst (create_checkout_session env req w)) = Session sid \<longrightarrow>
        (\<exists>pid cd. PricesCreate pid 18000 ''brl'' ''year'' 1
             \<in> set (stripe_calls (snd (create_checkout_session env req w))) \<and>
           SessionsCreate cd \<in> set (stripe_calls (snd (create_checkout_session env req w))) \<and>
           cd_metadata cd = [(''plan'', ''Plano Anual'')] \<and> mode cd = ''subscription''))"
proof -
  have tri: "catalog (planId req) = Some (7500, ''month'', 3, ''Plano Trimestral'')"
    if "planId req = JStr ''trimestral''"
    using that by (simp add: catalog_def)
  have anu: "catalog (planId req) = Some (18000, ''year'', 1, ''Plano Anual'')"
    if "planId req = JStr ''anual''"
    using that by (simp add: catalog_def)
  have falsy_id: "planId req \<noteq> JStr ''trimestral'' \<and> planId req \<noteq> JStr ''anual''"
    if "\<not> js_truthy (planId req)"
    using that by auto
  show ?thesis
  proof (intro conjI impI)
    assume a: "\<not> js_truthy (planId req)"
    with falsy_id show "create_checkout_session env req w =
          (\<lparr> status_code = 400, res_body = Failure PlanoNaoEspecificado \<rparr>, w)"
      by (simp add: checkout_session_rejected)
  next
    assume "js_truthy (planId req) \<and> planId req \<noteq> JStr ''trimestral'' \<and>
        planId req \<noteq> JStr ''anual''"
    then show "create_checkout_session env req w =
          (\<lparr> status_code = 400, res_body = Failure PlanoInvalido \<rparr>, w)"
      by (simp add: checkout_session_rejected)
  next
    assume "planId req = JStr ''trimestral'' \<or> planId req = JStr ''anual''"
    then show "status_code (fst (create_checkout_session env req w)) \<noteq> 400"
      using checkout_session_accepted [OF tri] checkout_session_accepted [OF anu] by blast
  next
    assume "planId req = JStr ''trimestral'' \<and>
        res_body (fst (create_checkout_session env req w)) = Session sid"
    then show "\<exists>pid cd. PricesCreate pid 7500 ''brl'' ''month'' 3
             \<in> set (stripe_calls (snd (create_checkout_session env req w))) \<and>
           SessionsCreate cd \<in> set (stripe_calls (snd (create_checkout_session env req w))) \<and>
           cd_metadata cd = [(''plan'', ''Plano Trimestral'')] \<and> mode cd = ''subscription''"
      using checkout_session_accepted [OF tri, of env w] by blast
  next
    assume "planId req = JStr ''anual'' \<and>
        res_body (fst (create_checkout_session env req w)) = Session sid"
    then show "\<exists>pid cd. PricesCreate pid 18000 ''brl'' ''year'' 1
             \<in> set (stripe_calls (snd (create_checkout_session env req w))) \<and>
           SessionsCreate cd \<in> set (stripe_calls (snd (create_checkout_session env req w))) \<and>
           cd_metadata cd = [(''plan'', ''Plano Anual'')] \<and> mode cd = ''subscription''"
      using checkout_session_accepted [OF anu, of env w] by blast
  qed
qed

lemma sample_checkout_session:
  "create_checkout_session sample_env
     \<lparr> planId = JStr ''trimestral'', req_email = JStr ''a@x.com'', protocol = ''https'',
       host = Some ''api.example'' \<rparr> empty_world =
   (\<lparr> status_code = 200, res_body = Session ''cs_1'' \<rparr>,
    empty_world\<lparr>stripe_calls :=
      [ProductsCreate ''Plano Trimestral'' ''Assinatura Plano Trimestral do PayoutHub'',
       PricesCreate ''prod_1'' 7500 ''brl'' ''month'' 3,
       CustomersCreate (JStr ''a@x.com'') ''Cliente PayoutHub'',
       SessionsCreate
         \<lparr> success_url =
             ''https://api.example/checkout-success?session_id={CHECKOUT_SESSION_ID}'',
           cancel_url = ''https://api.example/'', mode = ''subscription'',
           line_items = [(''price_1'', 1)], cd_metadata = [(''plan'', ''Plano Trimestral'')],
           cd_customer = Some ''cus_2'' \<rparr>]\<rparr>)"
  by (simp add: create_checkout_session_def catalog_def sample_env_def empty_world_def
      host_text_def)

theorem create_checkout_session_plan_check_witness:
  "create_checkout_session sample_env
     \<lparr> planId = JUndefined, req_email = JUndefined, protocol = ''https'',
       host = Some ''api.example'' \<rparr> empty_world =
     (\<lparr> status_code = 400, res_body = Failure PlanoNaoEspecificado \<rparr>, empty_world) \<and>
   create_checkout_session sample_env
     \<lparr> planId = JStr ''mensal'', req_email = JUndefined, protocol = ''https'',
       host = Some ''api.example'' \<rparr> empty_world =
     (\<lparr> status_code = 400, res_body = Failure PlanoInvalido \<rparr>, empty_world) \<and>
   status_code (fst (create_checkout_session sample_env
     \<lparr> planId = JStr ''trimestral'', req_email = JStr ''a@x.com'', protocol = ''https'',
       host = Some ''api.example'' \<rparr> empty_world)) = 200 \<and>
   (\<exists>pid cd. PricesCreate pid 7500 ''brl'' ''month'' 3
        \<in> set (stripe_calls (snd (create_checkout_session sample_env
     \<lparr> planId = JStr ''trimestral'', req_email = JStr ''a@x.com'', protocol = ''https'',
       host = Some ''api.example'' \<rparr> empty_world))) \<and>
      SessionsCreate cd \<in> set (stripe_calls (snd (create_checkout_session sample_env
     \<lparr> planId = JStr ''trimestral'', req_email = JStr ''a@x.com'', protocol = ''https'',
       host = Some ''api.example'' \<rparr> empty_world))) \<and>
      cd_metadata cd = [(''plan'', ''Plano Trimestral'')] \<and> mode cd = ''subscription'')"
proof -
  let ?none = "\<lparr> planId = JUndefined, req_email = JUndefined, protocol = ''https'',
       host = Some ''api.example'' \<rparr>"
  let ?bad = "\<lparr> planId = JStr ''mensal'', req_email = JUndefined, protocol = ''https'',
       host = Some ''api.example'' \<rparr>"
  let ?tri = "\<lparr> planId = JStr ''trimestral'', req_email = JStr ''a@x.com'', protocol = ''https'',
       host = Some ''api.example'' \<rparr>"
  have h1: "\<not> js_truthy (planId ?none)" by simp
  have h2: "js_truthy (planId ?bad) \<and> planId ?bad \<noteq> JStr ''trimestral'' \<and>
      planId ?bad \<noteq> JStr ''anual''" by simp
  have h3: "planId ?tri = JStr ''trimestral''"
    "res_body (fst (create_checkout_session sample_env ?tri empty_world)) = Session ''cs_1''"
    "status_code (fst (create_checkout_session sample_env ?tri empty_world)) = 200"
    by (simp_all add: sample_checkout_session)
  show ?thesis
    using create_checkout_session_plan_check [where req = ?none and env = sample_env
        and w = empty_world] h1
      create_checkout_session_plan_check [where req = ?bad and env = sample_env
        and w = empty_world] h2
      create_checkout_session_plan_check [where req = ?tri and env = sample_env
        and w = empty_world and sid = "''cs_1''"] h3
    by blast
qed

end
